theory Spec2Isabelle
  imports Main "HOL-Library.AList" "HOL-Library.Word"
begin

section \<open>JavaScript values\<close>

text \<open>
  The service is JavaScript: every record it handles is a parsed JSON value, every
  field read is a property access that may yield \<open>undefined\<close> or raise a TypeError,
  and every template literal converts the values it interpolates to strings, which
  raises for some objects. A string is a sequence of UTF-16 code units, here natural
  numbers; \<open>lit\<close> turns a literal of the source into its code units. A number is a
  safe integer, one that JavaScript reads and prints digit for digit, held as a signed
  word of 54 bits; the service does no arithmetic on the numbers it receives. What the
  logger writes is not part of the model, but the template of a logger call is evaluated
  where the source evaluates it, since its interpolations can raise; only a template
  over constants and counters, which cannot, is left out.
\<close>

type_synonym jstring = "nat list"

definition lit :: "string \<Rightarrow> jstring" where
  "lit s = map of_char s"

datatype json =
    JUndefined
  | JNull
  | JBool bool
  | JNum "54 word"
  | JStr jstring
  | JArr "json list"
  | JObj "(jstring \<times> json) list"

datatype js_error =
    AxiosError "nat option" jstring
  | Error jstring
  | TypeError jstring

text \<open>\<open>error.message\<close> and \<open>error.response?.status\<close>.\<close>

fun message :: "js_error \<Rightarrow> jstring" where
  "message (AxiosError st m) = m"
| "message (Error m) = m"
| "message (TypeError m) = m"

fun response_status :: "js_error \<Rightarrow> nat option" where
  "response_status (AxiosError st m) = st"
| "response_status (Error m) = None"
| "response_status (TypeError m) = None"

text \<open>Truthiness, as \<open>if (v)\<close>, \<open>!v\<close> and \<open>v && ...\<close> test it.\<close>

fun truthy :: "json \<Rightarrow> bool" where
  "truthy JUndefined = False"
| "truthy JNull = False"
| "truthy (JBool b) = b"
| "truthy (JNum n) = (n \<noteq> 0)"
| "truthy (JStr s) = (s \<noteq> [])"
| "truthy (JArr xs) = True"
| "truthy (JObj kvs) = True"

text \<open>Sequencing of computations that may raise.\<close>

definition andThen :: "js_error + 'a \<Rightarrow> ('a \<Rightarrow> js_error + 'b) \<Rightarrow> js_error + 'b" where
  "andThen r f = (case r of Inl e \<Rightarrow> Inl e | Inr x \<Rightarrow> f x)"

text \<open>
  The message of the TypeError that the engine raises for a read of the property
  \<open>k\<close> of \<open>undefined\<close> or \<open>null\<close>; code unit 39 is the apostrophe.
\<close>

definition cannot_read :: "string \<Rightarrow> string \<Rightarrow> jstring" where
  "cannot_read v k =
     lit ''Cannot read properties of '' @ lit v @ lit '' (reading '' @ [39] @ lit k @ [39] @ lit '')''"

text \<open>
  Reading a property \<open>v.k\<close>. On \<open>undefined\<close> and \<open>null\<close> the read raises; on an
  object it is the stored value or \<open>undefined\<close>; on the other values it is
  \<open>undefined\<close> for every property name the service reads (none of them is inherited
  from a prototype).
\<close>

fun get :: "json \<Rightarrow> string \<Rightarrow> js_error + json" where
  "get JUndefined k = Inl (TypeError (cannot_read ''undefined'' k))"
| "get JNull k = Inl (TypeError (cannot_read ''null'' k))"
| "get (JObj kvs) k = Inr (case map_of kvs (lit k) of Some v \<Rightarrow> v | None \<Rightarrow> JUndefined)"
| "get v k = Inr JUndefined"

text \<open>The element read \<open>v[0]\<close>.\<close>

fun at0 :: "json \<Rightarrow> js_error + json" where
  "at0 JUndefined = Inl (TypeError (cannot_read ''undefined'' ''0''))"
| "at0 JNull = Inl (TypeError (cannot_read ''null'' ''0''))"
| "at0 (JArr []) = Inr JUndefined"
| "at0 (JArr (x # xs)) = Inr x"
| "at0 (JStr []) = Inr JUndefined"
| "at0 (JStr (c # cs)) = Inr (JStr [c])"
| "at0 (JObj kvs) = Inr (case map_of kvs (lit ''0'') of Some v \<Rightarrow> v | None \<Rightarrow> JUndefined)"
| "at0 v = Inr JUndefined"

text \<open>
  \<open>String.prototype.trim\<close> removes the WhiteSpace and LineTerminator code points of
  ECMAScript from both ends.
\<close>

definition isWhiteSpace :: "nat \<Rightarrow> bool" where
  "isWhiteSpace c =
     (c = 9 \<or> c = 10 \<or> c = 11 \<or> c = 12 \<or> c = 13 \<or> c = 32 \<or> c = 160 \<or> c = 5760
      \<or> (8192 \<le> c \<and> c \<le> 8202) \<or> c = 8232 \<or> c = 8233 \<or> c = 8239 \<or> c = 8287
      \<or> c = 12288 \<or> c = 65279)"

definition trim :: "jstring \<Rightarrow> jstring" where
  "trim s = rev (dropWhile isWhiteSpace (rev (dropWhile isWhiteSpace s)))"

text \<open>
  The method call \<open>v.trim()\<close> on a truthy value: only a string has the method.
  \<open>expr\<close> is the source text of \<open>v\<close>, which the engine quotes in its message.
\<close>

fun call_trim :: "string \<Rightarrow> json \<Rightarrow> js_error + jstring" where
  "call_trim expr (JStr s) = Inr (trim s)"
| "call_trim expr JUndefined = Inl (TypeError (cannot_read ''undefined'' ''trim''))"
| "call_trim expr JNull = Inl (TypeError (cannot_read ''null'' ''trim''))"
| "call_trim expr v = Inl (TypeError (lit expr @ lit ''.trim is not a function''))"

text \<open>The condition \<open>v && v.trim() !== ''\<close>, as a test.\<close>

definition nonblank :: "string \<Rightarrow> json \<Rightarrow> js_error + bool" where
  "nonblank expr v =
     (if truthy v then andThen (call_trim expr v) (\<lambda>t. Inr (t \<noteq> [])) else Inr False)"

text \<open>
  The conversion to a string that a template literal applies to each value it
  interpolates. A number prints in decimal. An array prints its elements, joined by
  commas, with nothing for \<open>null\<close> and \<open>undefined\<close>. An object prints as
  \<open>[object Object]\<close> through the method \<open>toString\<close> it inherits; an object parsed
  from JSON with a key \<open>toString\<close> of its own hides that method behind a value that
  cannot be called, and the conversion raises.
\<close>

fun digits :: "nat \<Rightarrow> jstring" where
  "digits n = (if n < 10 then [48 + n] else digits (n div 10) @ [48 + n mod 10])"

declare digits.simps [simp del]

fun ToString :: "json \<Rightarrow> js_error + jstring"
  and join_elements :: "json list \<Rightarrow> js_error + jstring" where
  "ToString JUndefined = Inr (lit ''undefined'')"
| "ToString JNull = Inr (lit ''null'')"
| "ToString (JBool b) = Inr (if b then lit ''true'' else lit ''false'')"
| "ToString (JNum n) =
     Inr (if sint n < 0 then lit ''-'' @ digits (nat (- sint n)) else digits (nat (sint n)))"
| "ToString (JStr s) = Inr s"
| "ToString (JArr xs) = join_elements xs"
| "ToString (JObj kvs) =
     (case map_of kvs (lit ''toString'') of
        None \<Rightarrow> Inr (lit ''[object Object]'')
      | Some v \<Rightarrow> Inl (TypeError (lit ''Cannot convert object to primitive value'')))"
| "join_elements [] = Inr []"
| "join_elements (x # xs) =
     (case (if x = JNull \<or> x = JUndefined then Inr [] else ToString x) of
        Inl e \<Rightarrow> Inl e
      | Inr s \<Rightarrow>
          (if xs = [] then Inr s
           else (case join_elements xs of
                   Inl e \<Rightarrow> Inl e
                 | Inr rest \<Rightarrow> Inr (s @ lit '','' @ rest))))"

text \<open>
  The interpolations of the template of a log line, from left to right; each is an
  expression that may raise before its value is converted.
\<close>

fun interpolate :: "(js_error + json) list \<Rightarrow> js_error + unit" where
  "interpolate [] = Inr ()"
| "interpolate (expr # rest) =
     andThen expr (\<lambda>v.
     andThen (ToString v) (\<lambda>_.
     interpolate rest))"

section \<open>IntegrationService.validateDeal\<close>

text \<open>
  The three conditions are computed while the \<open>validations\<close> array is built, before
  the loop looks at the first of them. At the first condition that is false the loop
  logs a warning, whose template interpolates \<open>deal.id\<close>, and returns false.
\<close>

fun first_failing :: "json \<Rightarrow> bool list \<Rightarrow> js_error + bool" where
  "first_failing deal [] = Inr True"
| "first_failing deal (condition # rest) =
     (if \<not> condition then andThen (interpolate [get deal ''id'']) (\<lambda>_. Inr False)
      else first_failing deal rest)"

definition validateDeal :: "json \<Rightarrow> js_error + bool" where
  "validateDeal deal =
     andThen (get deal ''Stage'') (\<lambda>stage.
     andThen (get deal ''Type'') (\<lambda>type.
     andThen (get deal ''Deal_Name'') (\<lambda>name.
     andThen (nonblank ''deal.Deal_Name'' name) (\<lambda>named.
       first_failing deal
         [stage = JStr (lit ''Project Kickoff''),
          type = JStr (lit ''New Implementation Project''),
          named]))))"

section \<open>Requests, the remote systems and the services' state\<close>

text \<open>
  An axios request configuration. A part the code does not set is \<open>undefined\<close>.
\<close>

record request =
  http_method :: jstring
  url :: jstring
  headers :: json
  params :: json
  data :: json

text \<open>
  The two services hold their configuration, read from the environment at start, and
  ZohoService replaces its access token when it refreshes it.
\<close>

record ZohoService =
  clientId :: json
  clientSecret :: json
  redirectUri :: json
  zohoBaseUrl :: json
  accessToken :: json
  refreshToken :: json

record TrelloService =
  apiKey :: json
  token :: json
  trelloBaseUrl :: json

text \<open>
  The state of the process: the requests sent so far, oldest first, and the two service
  objects. The remote systems are a function from the requests already sent and the
  request at hand to the outcome of that request: a failure, with the HTTP status of the
  response when there was a response and with its message, or the body of the response.
\<close>

record world =
  sent :: "request list"
  zohoService :: ZohoService
  trelloService :: TrelloService

type_synonym remote = "request list \<Rightarrow> request \<Rightarrow> (nat option \<times> jstring) + json"

text \<open>
  A method of a service runs in the state of the process and ends with a value or with
  an error, and with the state it leaves. \<open>bind\<close> is \<open>await\<close> followed by
  the rest of the block, \<open>try_catch\<close> a \<open>try\<close> block with its handler,
  \<open>lift\<close> an expression that may raise, \<open>reads\<close> a read of \<open>this\<close>,
  \<open>logs\<close> a logger call whose message is a template with the given interpolations,
  and \<open>axios\<close> the request itself, which the state records.
\<close>

type_synonym 'a prog = "world \<Rightarrow> (js_error + 'a) \<times> world"

definition return :: "'a \<Rightarrow> 'a prog" where
  "return x s = (Inr x, s)"

definition throw :: "js_error \<Rightarrow> 'a prog" where
  "throw e s = (Inl e, s)"

definition bind :: "'a prog \<Rightarrow> ('a \<Rightarrow> 'b prog) \<Rightarrow> 'b prog" where
  "bind m f s = (case m s of (Inl e, s') \<Rightarrow> (Inl e, s') | (Inr x, s') \<Rightarrow> f x s')"

definition try_catch :: "'a prog \<Rightarrow> (js_error \<Rightarrow> 'a prog) \<Rightarrow> 'a prog" where
  "try_catch m handler s = (case m s of (Inl e, s') \<Rightarrow> handler e s' | (Inr x, s') \<Rightarrow> (Inr x, s'))"

definition lift :: "js_error + 'a \<Rightarrow> 'a prog" where
  "lift r s = (r, s)"

definition reads :: "(world \<Rightarrow> 'a) \<Rightarrow> 'a prog" where
  "reads f s = (Inr (f s), s)"

definition logs :: "(js_error + json) list \<Rightarrow> unit prog" where
  "logs interpolations = lift (interpolate interpolations)"

definition axios :: "remote \<Rightarrow> request \<Rightarrow> json prog" where
  "axios env config s =
     (case env (sent s) config of
        Inl (st, m) \<Rightarrow> (Inl (AxiosError st m), s\<lparr>sent := sent s @ [config]\<rparr>)
      | Inr body \<Rightarrow> (Inr body, s\<lparr>sent := sent s @ [config]\<rparr>))"

section \<open>ZohoService\<close>

definition refresh_request :: "ZohoService \<Rightarrow> request" where
  "refresh_request z =
     \<lparr>http_method = lit ''post'',
      url = lit ''https://accounts.zoho.com/oauth/v2/token'',
      headers = JUndefined,
      params = JObj
        [(lit ''grant_type'', JStr (lit ''refresh_token'')),
         (lit ''client_id'', clientId z),
         (lit ''client_secret'', clientSecret z),
         (lit ''refresh_token'', refreshToken z)],
      data = JNull\<rparr>"

definition set_accessToken :: "json \<Rightarrow> unit prog" where
  "set_accessToken t s = (Inr (), s\<lparr>zohoService := (zohoService s)\<lparr>accessToken := t\<rparr>\<rparr>)"

definition refreshAccessToken :: "remote \<Rightarrow> json prog" where
  "refreshAccessToken env =
     try_catch
       (bind (reads zohoService) (\<lambda>z.
        bind (axios env (refresh_request z)) (\<lambda>body.
        bind (lift (get body ''access_token'')) (\<lambda>t.
        bind (set_accessToken t) (\<lambda>_.
        return t)))))
       (\<lambda>error. throw (Error (lit ''Failed to refresh access token'')))"

text \<open>
  The configuration of a CRM request. Its url and its Authorization header are
  templates over the base url and the access token of the service; \<open>zoho_request\<close>
  is the object literal around the two strings they give.
\<close>

definition zoho_request :: "jstring \<Rightarrow> jstring \<Rightarrow> jstring \<Rightarrow> jstring \<Rightarrow> json \<Rightarrow> request" where
  "zoho_request base tok endpoint meth body =
     (let config =
        \<lparr>http_method = meth,
         url = base @ endpoint,
         headers = JObj
           [(lit ''Authorization'', JStr (lit ''Zoho-oauthtoken '' @ tok)),
            (lit ''Content-Type'', JStr (lit ''application/json''))],
         params = JUndefined,
         data = JUndefined\<rparr>
      in if truthy body then config\<lparr>data := body\<rparr> else config)"

definition zoho_config :: "ZohoService \<Rightarrow> jstring \<Rightarrow> jstring \<Rightarrow> json \<Rightarrow> js_error + request" where
  "zoho_config z endpoint meth body =
     andThen (ToString (zohoBaseUrl z)) (\<lambda>base.
     andThen (ToString (accessToken z)) (\<lambda>tok.
       Inr (zoho_request base tok endpoint meth body)))"

definition zoho_makeRequest :: "remote \<Rightarrow> jstring \<Rightarrow> jstring \<Rightarrow> json \<Rightarrow> json prog" where
  "zoho_makeRequest env endpoint meth body =
     try_catch
       (bind (reads zohoService) (\<lambda>z.
        bind (lift (zoho_config z endpoint meth body)) (\<lambda>config.
        axios env config)))
       (\<lambda>error.
          if response_status error = Some 401 then
            bind (refreshAccessToken env) (\<lambda>_.
            bind (reads zohoService) (\<lambda>z.
            bind (lift (zoho_config z endpoint meth body)) (\<lambda>config.
            axios env config)))
          else throw error)"

text \<open>
  \<open>encodeURIComponent\<close> of the search criteria, a constant: the colons and the
  spaces are escaped, the parentheses are not.
\<close>

definition encoded_criteria :: jstring where
  "encoded_criteria =
     lit ''((Stage%3Aequals%3AProject%20Kickoff)and(Type%3Aequals%3ANew%20Implementation%20Project))''"

text \<open>
  \<open>Array.prototype.filter\<close> with a callback that may raise: the elements are
  tested in order and the first error ends the call.
\<close>

fun filter_raising :: "('a \<Rightarrow> js_error + bool) \<Rightarrow> 'a list \<Rightarrow> js_error + 'a list" where
  "filter_raising p [] = Inr []"
| "filter_raising p (x # xs) =
     andThen (p x) (\<lambda>keep.
     andThen (filter_raising p xs) (\<lambda>rest.
       Inr (if keep then x # rest else rest)))"

fun call_filter :: "string \<Rightarrow> json \<Rightarrow> (json \<Rightarrow> js_error + bool) \<Rightarrow> js_error + json list" where
  "call_filter expr (JArr xs) p = filter_raising p xs"
| "call_filter expr JUndefined p = Inl (TypeError (cannot_read ''undefined'' ''filter''))"
| "call_filter expr JNull p = Inl (TypeError (cannot_read ''null'' ''filter''))"
| "call_filter expr v p = Inl (TypeError (lit expr @ lit ''.filter is not a function''))"

text \<open>The callback of getEligibleDeals: it reads the property \<open>Project_Board_ID__c\<close>.\<close>

definition board_id_empty :: "json \<Rightarrow> js_error + bool" where
  "board_id_empty deal =
     andThen (get deal ''Project_Board_ID__c'') (\<lambda>v.
       Inr (if truthy v then v = JStr [] else True))"

text \<open>
  getEligibleDeals. Its endpoint is a template over two constants, and its log line
  interpolates the length of the filtered array.
\<close>

definition getEligibleDeals :: "remote \<Rightarrow> json list prog" where
  "getEligibleDeals env =
     try_catch
       (bind (zoho_makeRequest env (lit ''/Deals/search?criteria='' @ encoded_criteria)
                (lit ''GET'') JNull) (\<lambda>response.
        bind (lift (get response ''data'')) (\<lambda>rows.
          if \<not> truthy rows then return []
          else bind (lift (call_filter ''response.data'' rows board_id_empty)) (\<lambda>eligibleDeals.
               return eligibleDeals))))
       (\<lambda>error. throw error)"

text \<open>
  The test of the response in updateDealWithBoardId:
  \<open>!response.data || !response.data[0] || response.data[0].status !== 'success'\<close>.
\<close>

definition update_failed :: "json \<Rightarrow> js_error + bool" where
  "update_failed response =
     andThen (get response ''data'') (\<lambda>rows.
       if \<not> truthy rows then Inr True
       else andThen (at0 rows) (\<lambda>row.
         if \<not> truthy row then Inr True
         else andThen (get row ''status'') (\<lambda>st. Inr (st \<noteq> JStr (lit ''success'')))))"

definition update_data :: "json \<Rightarrow> json \<Rightarrow> json" where
  "update_data dealId boardId =
     JObj [(lit ''data'',
       JArr [JObj [(lit ''id'', dealId), (lit ''Project_Board_ID_c'', boardId)]])]"

text \<open>
  updateDealWithBoardId. The endpoint, the message of the error it raises and its log
  lines are templates over \<open>dealId\<close>; the log line of the success also interpolates
  \<open>boardId\<close>, and the one of the failure the text of \<open>response.data[0]\<close>, a string
  or \<open>undefined\<close>. The handler logs \<open>dealId\<close> again before it raises the error anew.
\<close>

definition updateDealWithBoardId :: "remote \<Rightarrow> json \<Rightarrow> json \<Rightarrow> json prog" where
  "updateDealWithBoardId env dealId boardId =
     try_catch
       (bind (lift (ToString dealId)) (\<lambda>shown.
        bind (zoho_makeRequest env (lit ''/Deals/'' @ shown) (lit ''PUT'')
                (update_data dealId boardId)) (\<lambda>response.
        bind (lift (update_failed response)) (\<lambda>failed.
          if failed then
            bind (logs [Inr dealId]) (\<lambda>_.
            bind (lift (ToString dealId)) (\<lambda>shown.
            throw (Error (lit ''Failed to update deal '' @ shown
                          @ lit '' in Zoho. See logs for details.''))))
          else
            bind (logs [Inr dealId, Inr boardId]) (\<lambda>_.
            return response)))))
       (\<lambda>error. bind (logs [Inr dealId]) (\<lambda>_. throw error))"

section \<open>TrelloService\<close>

text \<open>
  The own enumerable properties of a value, which the object spread of makeRequest
  copies, and the spread \<open>{...a, ...b}\<close> itself. The order of the pairs of an
  object carries no meaning.
\<close>

fun entries :: "json \<Rightarrow> (jstring \<times> json) list" where
  "entries (JObj kvs) = kvs"
| "entries (JArr xs) = zip (map digits [0..<length xs]) xs"
| "entries (JStr s) = zip (map digits [0..<length s]) (map (\<lambda>c. JStr [c]) s)"
| "entries v = []"

definition spread :: "json \<Rightarrow> json \<Rightarrow> json" where
  "spread a b = JObj (fold (\<lambda>(k, v). AList.update k v) (entries b) (entries a))"

text \<open>
  The configuration of a board-service request. Its url is a template over the base
  url of the service; \<open>trello_request\<close> is the object literal around the string it
  gives.
\<close>

definition trello_request :: "TrelloService \<Rightarrow> jstring \<Rightarrow> jstring \<Rightarrow> jstring \<Rightarrow> json \<Rightarrow> request" where
  "trello_request t base endpoint meth body =
     (let config =
        \<lparr>http_method = meth,
         url = base @ endpoint,
         headers = JUndefined,
         params = JObj [(lit ''key'', apiKey t), (lit ''token'', token t)],
         data = JUndefined\<rparr>
      in if truthy body then
           (if meth = lit ''GET'' then config\<lparr>params := spread (params config) body\<rparr>
            else config\<lparr>data := body\<rparr>)
         else config)"

definition trello_config :: "TrelloService \<Rightarrow> jstring \<Rightarrow> jstring \<Rightarrow> json \<Rightarrow> js_error + request" where
  "trello_config t endpoint meth body =
     andThen (ToString (trelloBaseUrl t)) (\<lambda>base.
       Inr (trello_request t base endpoint meth body))"

definition trello_makeRequest :: "remote \<Rightarrow> jstring \<Rightarrow> jstring \<Rightarrow> json \<Rightarrow> json prog" where
  "trello_makeRequest env endpoint meth body =
     try_catch
       (bind (reads trelloService) (\<lambda>t.
        bind (lift (trello_config t endpoint meth body)) (\<lambda>config.
        axios env config)))
       (\<lambda>error. throw error)"

definition boardData :: "json \<Rightarrow> json \<Rightarrow> json" where
  "boardData name description =
     JObj [(lit ''name'', name),
           (lit ''desc'', description),
           (lit ''defaultLists'', JBool False),
           (lit ''prefs_permissionLevel'', JStr (lit ''private''))]"

text \<open>
  createBoard, createList and createCard. Each logs what it created, in a template over
  its arguments (and, for the board, over \<open>board.id\<close>), and each handler logs the
  name again before it raises the error anew.
\<close>

definition createBoard :: "remote \<Rightarrow> json \<Rightarrow> json \<Rightarrow> json prog" where
  "createBoard env name description =
     try_catch
       (bind (trello_makeRequest env (lit ''/boards'') (lit ''POST'')
                (boardData name description)) (\<lambda>board.
        bind (logs [Inr name, get board ''id'']) (\<lambda>_.
        return board)))
       (\<lambda>error. bind (logs [Inr name]) (\<lambda>_. throw error))"

definition listData :: "json \<Rightarrow> json \<Rightarrow> json \<Rightarrow> json" where
  "listData boardId listName position =
     JObj [(lit ''name'', listName), (lit ''idBoard'', boardId), (lit ''pos'', position)]"

definition createList :: "remote \<Rightarrow> json \<Rightarrow> json \<Rightarrow> json \<Rightarrow> json prog" where
  "createList env boardId listName position =
     try_catch
       (bind (trello_makeRequest env (lit ''/lists'') (lit ''POST'')
                (listData boardId listName position)) (\<lambda>list.
        bind (logs [Inr listName, Inr boardId]) (\<lambda>_.
        return list)))
       (\<lambda>error. bind (logs [Inr listName]) (\<lambda>_. throw error))"

definition cardData :: "json \<Rightarrow> json \<Rightarrow> json \<Rightarrow> json" where
  "cardData listId cardName description =
     JObj [(lit ''name'', cardName),
           (lit ''desc'', description),
           (lit ''idList'', listId),
           (lit ''pos'', JStr (lit ''bottom''))]"

definition createCard :: "remote \<Rightarrow> json \<Rightarrow> json \<Rightarrow> json \<Rightarrow> json prog" where
  "createCard env listId cardName description =
     try_catch
       (bind (trello_makeRequest env (lit ''/cards'') (lit ''POST'')
                (cardData listId cardName description)) (\<lambda>card.
        bind (logs [Inr cardName, Inr listId]) (\<lambda>_.
        return card)))
       (\<lambda>error. bind (logs [Inr cardName]) (\<lambda>_. throw error))"

record board_lists =
  lists_todo :: json
  lists_inProgress :: json
  lists_done :: json

record project_board =
  board :: json
  lists :: board_lists
  cards :: "json list"

definition initialCards :: "jstring list" where
  "initialCards =
     [lit ''Kickoff Meeting Scheduled'', lit ''Requirements Gathering'', lit ''System Setup'']"

text \<open>
  The loop over \<open>initialCards\<close>: each round reads \<open>todoList.id\<close>, creates the card
  with the default empty description and pushes it onto \<open>createdCards\<close>.
\<close>

fun createCards :: "remote \<Rightarrow> json \<Rightarrow> jstring list \<Rightarrow> json list \<Rightarrow> json list prog" where
  "createCards env todoList [] createdCards = return createdCards"
| "createCards env todoList (cardName # rest) createdCards =
     bind (lift (get todoList ''id'')) (\<lambda>listId.
     bind (createCard env listId (JStr cardName) (JStr [])) (\<lambda>card.
     createCards env todoList rest (createdCards @ [card])))"

text \<open>
  The name and the description of the board, two templates over the name and the id of
  the deal.
\<close>

definition boardName :: "json \<Rightarrow> js_error + json" where
  "boardName dealName =
     andThen (ToString dealName) (\<lambda>shownName.
       Inr (JStr (lit ''Project: '' @ shownName)))"

definition boardDescription :: "json \<Rightarrow> json \<Rightarrow> js_error + json" where
  "boardDescription dealName dealId =
     andThen (ToString dealName) (\<lambda>shownName.
     andThen (ToString dealId) (\<lambda>shownId.
       Inr (JStr (lit ''Project board for deal: '' @ shownName
                  @ lit '' (Zoho Deal ID: '' @ shownId @ lit '')''))))"

definition createProjectBoard :: "remote \<Rightarrow> json \<Rightarrow> json \<Rightarrow> project_board prog" where
  "createProjectBoard env dealName dealId =
     try_catch
       (bind (lift (boardName dealName)) (\<lambda>name.
        bind (lift (boardDescription dealName dealId)) (\<lambda>description.
        bind (createBoard env name description) (\<lambda>board.
        bind (lift (get board ''id'')) (\<lambda>boardId.
        bind (createList env boardId (JStr (lit ''To Do'')) (JNum 1)) (\<lambda>todoList.
        bind (createList env boardId (JStr (lit ''In Progress'')) (JNum 2)) (\<lambda>inProgressList.
        bind (createList env boardId (JStr (lit ''Done'')) (JNum 3)) (\<lambda>doneList.
        bind (createCards env todoList initialCards []) (\<lambda>createdCards.
        bind (logs [Inr dealName]) (\<lambda>_.
        return
          \<lparr>board = board,
           lists = \<lparr>lists_todo = todoList, lists_inProgress = inProgressList,
                    lists_done = doneList\<rparr>,
           cards = createdCards\<rparr>))))))))))
       (\<lambda>error. bind (logs [Inr dealName]) (\<lambda>_. throw error))"

section \<open>IntegrationService\<close>

record processed_deal =
  pd_dealId :: json
  pd_dealName :: json
  pd_boardId :: json
  pd_boardUrl :: json

text \<open>
  processDeal. Its first log line interpolates \<open>deal.Deal_Name\<close> and \<open>deal.id\<close>,
  the one after the update \<open>deal.id\<close> and the id of the board, and its handler logs
  \<open>deal.id\<close> before it raises the error anew.
\<close>

definition processDeal :: "remote \<Rightarrow> json \<Rightarrow> processed_deal prog" where
  "processDeal env deal =
     try_catch
       (bind (logs [get deal ''Deal_Name'', get deal ''id'']) (\<lambda>_.
        bind (lift (validateDeal deal)) (\<lambda>valid.
          if \<not> valid then throw (Error (lit ''Deal does not meet all criteria''))
          else
            bind (lift (get deal ''Deal_Name'')) (\<lambda>dealName.
            bind (lift (get deal ''id'')) (\<lambda>dealId.
            bind (createProjectBoard env dealName dealId) (\<lambda>projectBoard.
            bind (lift (get (board projectBoard) ''id'')) (\<lambda>boardId.
            bind (updateDealWithBoardId env dealId boardId) (\<lambda>_.
            bind (logs [get deal ''id'', get (board projectBoard) ''id'']) (\<lambda>_.
            bind (lift (get (board projectBoard) ''url'')) (\<lambda>boardUrl.
            return
              \<lparr>pd_dealId = dealId, pd_dealName = dealName,
               pd_boardId = boardId, pd_boardUrl = boardUrl\<rparr>))))))))))
       (\<lambda>error. bind (logs [get deal ''id'']) (\<lambda>_. throw error))"

record detail =
  dealId :: json
  dealName :: json
  status :: jstring
  detail_message :: jstring

record results =
  processed :: nat
  created :: nat
  errors :: nat
  details :: "detail list"

text \<open>
  The body of the loop of syncDealsToTrello for one deal. The guard on
  \<open>Project_Board_ID_c\<close> and the log line of the skip, which interpolates
  \<open>deal.id\<close> and \<open>deal.Deal_Name\<close>, are outside the inner \<open>try\<close>; processDeal
  and the update of the counters are inside it; its handler counts the error, pushes
  the detail and then logs \<open>deal.id\<close>.
\<close>

definition record_success :: "json \<Rightarrow> results \<Rightarrow> results prog" where
  "record_success deal res =
     bind (lift (get deal ''id'')) (\<lambda>i.
     bind (lift (get deal ''Deal_Name'')) (\<lambda>n.
     return (res\<lparr>created := created res + 1,
                 details := details res @
                   [\<lparr>dealId = i, dealName = n, status = lit ''success'',
                     detail_message = lit ''Trello board created successfully''\<rparr>]\<rparr>)))"

definition record_error :: "json \<Rightarrow> js_error \<Rightarrow> results \<Rightarrow> results prog" where
  "record_error deal error res =
     bind (lift (get deal ''id'')) (\<lambda>i.
     bind (lift (get deal ''Deal_Name'')) (\<lambda>n.
     bind (logs [get deal ''id'']) (\<lambda>_.
     return (res\<lparr>errors := errors res + 1,
                 details := details res @
                   [\<lparr>dealId = i, dealName = n, status = lit ''error'',
                     detail_message = message error\<rparr>]\<rparr>))))"

definition syncDeal :: "remote \<Rightarrow> json \<Rightarrow> results \<Rightarrow> results prog" where
  "syncDeal env deal res =
     bind (lift (andThen (get deal ''Project_Board_ID_c'')
                   (nonblank ''deal.Project_Board_ID_c''))) (\<lambda>linked.
       if linked then
         bind (logs [get deal ''id'', get deal ''Deal_Name'']) (\<lambda>_. return res)
       else
         try_catch
           (bind (processDeal env deal) (\<lambda>_. record_success deal res))
           (\<lambda>error. record_error deal error res))"

fun syncLoop :: "remote \<Rightarrow> json list \<Rightarrow> results \<Rightarrow> results prog" where
  "syncLoop env [] res = return res"
| "syncLoop env (deal # rest) res =
     bind (syncDeal env deal res) (\<lambda>res'. syncLoop env rest res')"

definition syncDealsToTrello :: "remote \<Rightarrow> results prog" where
  "syncDealsToTrello env =
     try_catch
       (bind (getEligibleDeals env) (\<lambda>eligibleDeals.
          if length eligibleDeals = 0 then
            return \<lparr>processed = 0, created = 0, errors = 0, details = []\<rparr>
          else
            syncLoop env eligibleDeals
              \<lparr>processed = length eligibleDeals, created = 0, errors = 0, details = []\<rparr>))
       (\<lambda>error. throw error)"

section \<open>The two callers of the synchronisation\<close>

datatype reply_body = SyncCompleted results | SyncFailed

record http_reply =
  http_status :: nat
  http_body :: reply_body

text \<open>The handler of \<open>POST /sync\<close> and the callback of the scheduler.\<close>

definition post_sync :: "remote \<Rightarrow> http_reply prog" where
  "post_sync env =
     try_catch
       (bind (syncDealsToTrello env) (\<lambda>result.
        return \<lparr>http_status = 200, http_body = SyncCompleted result\<rparr>))
       (\<lambda>error. return \<lparr>http_status = 500, http_body = SyncFailed\<rparr>)"

definition scheduled_sync :: "remote \<Rightarrow> unit prog" where
  "scheduled_sync env =
     try_catch
       (bind (syncDealsToTrello env) (\<lambda>_. return ()))
       (\<lambda>error. return ())"

section \<open>Vocabulary of the properties\<close>

text \<open>
  A value that is a string; a value that a template can interpolate, and the string it
  gives then.
\<close>

definition is_text :: "json \<Rightarrow> bool" where
  "is_text v = (case v of JStr s \<Rightarrow> True | _ \<Rightarrow> False)"

definition printable :: "json \<Rightarrow> bool" where
  "printable v = (case ToString v of Inr s \<Rightarrow> True | Inl e \<Rightarrow> False)"

definition printed :: "json \<Rightarrow> jstring" where
  "printed v = (case ToString v of Inr s \<Rightarrow> s | Inl e \<Rightarrow> [])"

definition cannot_convert :: js_error where
  "cannot_convert = TypeError (lit ''Cannot convert object to primitive value'')"

text \<open>
  A field of a value that is known not to be \<open>null\<close> or \<open>undefined\<close>, and the
  replies of the remote systems to a sequence of requests sent one after the other.
\<close>

definition field :: "json \<Rightarrow> string \<Rightarrow> json" where
  "field v k = (case get v k of Inr x \<Rightarrow> x | Inl e \<Rightarrow> JUndefined)"

fun replies :: "remote \<Rightarrow> request list \<Rightarrow> request list \<Rightarrow> ((nat option \<times> jstring) + json) list" where
  "replies env hist [] = []"
| "replies env hist (r # rs) = env hist r # replies env (hist @ [r]) rs"

text \<open>
  The requests of the two services, for a configuration whose base url and access token
  convert to strings: the configuration that \<open>zoho_config\<close> and
  \<open>trello_config\<close> give then.
\<close>

definition zoho_call :: "ZohoService \<Rightarrow> jstring \<Rightarrow> jstring \<Rightarrow> json \<Rightarrow> request" where
  "zoho_call z endpoint meth body =
     zoho_request (printed (zohoBaseUrl z)) (printed (accessToken z)) endpoint meth body"

definition trello_call :: "TrelloService \<Rightarrow> jstring \<Rightarrow> jstring \<Rightarrow> json \<Rightarrow> request" where
  "trello_call t endpoint meth body =
     trello_request t (printed (trelloBaseUrl t)) endpoint meth body"

text \<open>
  The seven requests of a project board, for the service configuration \<open>t\<close>, the
  name and the id of the deal, the id of the board and the id of its To Do list.
\<close>

definition project_requests :: "TrelloService \<Rightarrow> json \<Rightarrow> json \<Rightarrow> json \<Rightarrow> json \<Rightarrow> request list" where
  "project_requests t n d boardId listId =
     [trello_call t (lit ''/boards'') (lit ''POST'')
        (JObj [(lit ''name'', JStr (lit ''Project: '' @ printed n)),
               (lit ''desc'', JStr (lit ''Project board for deal: '' @ printed n
                                    @ lit '' (Zoho Deal ID: '' @ printed d @ lit '')'')),
               (lit ''defaultLists'', JBool False),
               (lit ''prefs_permissionLevel'', JStr (lit ''private''))]),
      trello_call t (lit ''/lists'') (lit ''POST'')
        (JObj [(lit ''name'', JStr (lit ''To Do'')), (lit ''idBoard'', boardId), (lit ''pos'', JNum 1)]),
      trello_call t (lit ''/lists'') (lit ''POST'')
        (JObj [(lit ''name'', JStr (lit ''In Progress'')), (lit ''idBoard'', boardId), (lit ''pos'', JNum 2)]),
      trello_call t (lit ''/lists'') (lit ''POST'')
        (JObj [(lit ''name'', JStr (lit ''Done'')), (lit ''idBoard'', boardId), (lit ''pos'', JNum 3)]),
      trello_call t (lit ''/cards'') (lit ''POST'')
        (JObj [(lit ''name'', JStr (lit ''Kickoff Meeting Scheduled'')), (lit ''desc'', JStr []),
               (lit ''idList'', listId), (lit ''pos'', JStr (lit ''bottom''))]),
      trello_call t (lit ''/cards'') (lit ''POST'')
        (JObj [(lit ''name'', JStr (lit ''Requirements Gathering'')), (lit ''desc'', JStr []),
               (lit ''idList'', listId), (lit ''pos'', JStr (lit ''bottom''))]),
      trello_call t (lit ''/cards'') (lit ''POST'')
        (JObj [(lit ''name'', JStr (lit ''System Setup'')), (lit ''desc'', JStr []),
               (lit ''idList'', listId), (lit ''pos'', JStr (lit ''bottom''))])]"

text \<open>
  Requests by kind. The write-back is the only PUT of the service; a request of
  TrelloService carries the \<open>key\<close> parameter, and board provisioning is made of its
  POST requests.
\<close>

definition write_back :: "request \<Rightarrow> bool" where
  "write_back r = (http_method r = lit ''PUT'')"

definition to_trello :: "request \<Rightarrow> bool" where
  "to_trello r =
     (case params r of
        JObj kvs \<Rightarrow> (case map_of kvs (lit ''key'') of Some v \<Rightarrow> True | None \<Rightarrow> False)
      | _ \<Rightarrow> False)"

definition provisioning :: "request \<Rightarrow> bool" where
  "provisioning r = (to_trello r \<and> http_method r = lit ''POST'')"

definition fetch_request :: "request \<Rightarrow> bool" where
  "fetch_request r = (\<not> provisioning r \<and> \<not> write_back r)"

text \<open>
  The three requests of ZohoService that the traces below name: the search of
  getEligibleDeals, the write-back of a board id and the request of checkConnection.
  \<open>write_back_call\<close> is the request of updateDealWithBoardId as the method makes it,
  the template of its endpoint first.
\<close>

definition search_request :: "ZohoService \<Rightarrow> request" where
  "search_request z =
     zoho_call z (lit ''/Deals/search?criteria='' @ encoded_criteria) (lit ''GET'') JNull"

definition put_request :: "ZohoService \<Rightarrow> string \<Rightarrow> json \<Rightarrow> request" where
  "put_request z i b =
     zoho_call z (lit (''/Deals/'' @ i)) (lit ''PUT'') (update_data (JStr (lit i)) b)"

definition org_request :: "ZohoService \<Rightarrow> request" where
  "org_request z = zoho_call z (lit ''/org'') (lit ''GET'') JNull"

definition write_back_call :: "remote \<Rightarrow> json \<Rightarrow> json \<Rightarrow> json prog" where
  "write_back_call env d b =
     bind (lift (ToString d)) (\<lambda>shown.
       zoho_makeRequest env (lit ''/Deals/'' @ shown) (lit ''PUT'') (update_data d b))"

text \<open>
  A deal whose board reference is empty: the field \<open>Project_Board_ID_c\<close> is missing,
  \<open>null\<close>, the empty string or another falsy value.
\<close>

definition unlinked :: "json \<Rightarrow> bool" where
  "unlinked deal = (case get deal ''Project_Board_ID_c'' of Inr v \<Rightarrow> \<not> truthy v | Inl e \<Rightarrow> False)"

text \<open>
  The response of the CRM to an update carries an explicit success status for the
  record: \<open>response.data[0].status\<close> exists and is \<open>success\<close>.
\<close>

definition reports_success :: "json \<Rightarrow> bool" where
  "reports_success response =
     (case get response ''data'' of
        Inl e \<Rightarrow> False
      | Inr rows \<Rightarrow>
          (case at0 rows of
             Inl e \<Rightarrow> False
           | Inr row \<Rightarrow> get row ''status'' = Inr (JStr (lit ''success''))))"

text \<open>The two kinds of entry of \<open>details\<close>.\<close>

definition error_detail :: "json \<Rightarrow> jstring \<Rightarrow> detail" where
  "error_detail deal msg =
     \<lparr>dealId = field deal ''id'', dealName = field deal ''Deal_Name'',
      status = lit ''error'', detail_message = msg\<rparr>"

definition success_detail :: "json \<Rightarrow> detail" where
  "success_detail deal =
     \<lparr>dealId = field deal ''id'', dealName = field deal ''Deal_Name'',
      status = lit ''success'', detail_message = lit ''Trello board created successfully''\<rparr>"

text \<open>
  Deals for the concrete runs: three that meet every criterion, one whose name is blank
  and one that already carries a board id under the API name of the custom field, as
  the CRM returns it after a write-back.
\<close>

definition acme :: json where
  "acme = JObj
     [(lit ''id'', JStr (lit ''1001'')),
      (lit ''Deal_Name'', JStr (lit ''Acme rollout'')),
      (lit ''Stage'', JStr (lit ''Project Kickoff'')),
      (lit ''Type'', JStr (lit ''New Implementation Project''))]"

definition cobalt :: json where
  "cobalt = JObj
     [(lit ''id'', JStr (lit ''1003'')),
      (lit ''Deal_Name'', JStr (lit ''Cobalt'')),
      (lit ''Stage'', JStr (lit ''Project Kickoff'')),
      (lit ''Type'', JStr (lit ''New Implementation Project''))]"

definition delta :: json where
  "delta = JObj
     [(lit ''id'', JStr (lit ''1004'')),
      (lit ''Deal_Name'', JStr (lit ''Delta'')),
      (lit ''Stage'', JStr (lit ''Project Kickoff'')),
      (lit ''Type'', JStr (lit ''New Implementation Project''))]"

definition blank_deal :: json where
  "blank_deal = JObj
     [(lit ''id'', JStr (lit ''1000'')),
      (lit ''Deal_Name'', JStr (lit ''  '')),
      (lit ''Stage'', JStr (lit ''Project Kickoff'')),
      (lit ''Type'', JStr (lit ''New Implementation Project''))]"

definition linked_deal :: json where
  "linked_deal = JObj
     [(lit ''id'', JStr (lit ''1002'')),
      (lit ''Deal_Name'', JStr (lit ''Borealis'')),
      (lit ''Stage'', JStr (lit ''Project Kickoff'')),
      (lit ''Type'', JStr (lit ''New Implementation Project'')),
      (lit ''Project_Board_ID_c'', JStr (lit ''b-77''))]"

text \<open>
  An object that no template can interpolate, \<open>{"toString": 1}\<close>, and deals that
  carry it as their id: one with a blank name, one that meets every criterion and one
  that is linked to a board.
\<close>

definition opaque :: json where
  "opaque = JObj [(lit ''toString'', JNum 1)]"

definition opaque_blank :: json where
  "opaque_blank = JObj
     [(lit ''id'', opaque),
      (lit ''Deal_Name'', JStr (lit ''  '')),
      (lit ''Stage'', JStr (lit ''Project Kickoff'')),
      (lit ''Type'', JStr (lit ''New Implementation Project''))]"

definition opaque_deal :: json where
  "opaque_deal = JObj
     [(lit ''id'', opaque),
      (lit ''Deal_Name'', JStr (lit ''Opal'')),
      (lit ''Stage'', JStr (lit ''Project Kickoff'')),
      (lit ''Type'', JStr (lit ''New Implementation Project''))]"

definition opaque_linked :: json where
  "opaque_linked = JObj
     [(lit ''id'', opaque),
      (lit ''Deal_Name'', JStr (lit ''Borealis'')),
      (lit ''Stage'', JStr (lit ''Project Kickoff'')),
      (lit ''Type'', JStr (lit ''New Implementation Project'')),
      (lit ''Project_Board_ID_c'', JStr (lit ''b-77''))]"

text \<open>A configuration of the two services and the state of a process that has just started.\<close>

definition demo_zoho :: ZohoService where
  "demo_zoho =
     \<lparr>clientId = JStr (lit ''client-1''),
      clientSecret = JStr (lit ''secret-1''),
      redirectUri = JStr (lit ''http://localhost:3000/callback''),
      zohoBaseUrl = JStr (lit ''https://www.zohoapis.com/crm/v2''),
      accessToken = JStr (lit ''access-1''),
      refreshToken = JStr (lit ''refresh-1'')\<rparr>"

definition demo_trello :: TrelloService where
  "demo_trello =
     \<lparr>apiKey = JStr (lit ''key-1''),
      token = JStr (lit ''token-1''),
      trelloBaseUrl = JStr (lit ''https://api.trello.com/1'')\<rparr>"

definition start :: world where
  "start = \<lparr>sent = [], zohoService = demo_zoho, trelloService = demo_trello\<rparr>"

text \<open>A CRM that answers every request with an empty body (HTTP 204, no matching record).\<close>

definition no_content :: remote where
  "no_content hist req = Inr (JStr [])"

text \<open>Remote systems that cannot be reached.\<close>

definition unreachable :: remote where
  "unreachable hist req = Inl (None, lit ''connect ECONNREFUSED'')"

text \<open>The two answers of the CRM to an update.\<close>

definition rejected :: json where
  "rejected = JObj [(lit ''data'',
     JArr [JObj [(lit ''code'', JStr (lit ''INVALID_DATA'')),
                 (lit ''status'', JStr (lit ''error''))]])]"

definition accepted :: json where
  "accepted = JObj [(lit ''data'',
     JArr [JObj [(lit ''code'', JStr (lit ''SUCCESS'')),
                 (lit ''status'', JStr (lit ''success''))]])]"

text \<open>
  Remote systems for the concrete runs. The CRM finds the given deals, accepts the
  write-back for deal 1001 and rejects every other one; the board service refuses the
  board of the deal named Cobalt and creates everything else, giving each object its
  name as id.
\<close>

definition office :: "json list \<Rightarrow> remote" where
  "office deals hist req =
     (if http_method req = lit ''GET'' then
        Inr (JObj [(lit ''data'', JArr deals)])
      else if http_method req = lit ''PUT'' then
        (if url req = lit ''https://www.zohoapis.com/crm/v2/Deals/1001'' then Inr accepted
         else Inr rejected)
      else if field (data req) ''name'' = JStr (lit ''Project: Cobalt'') then
        Inl (Some 500, lit ''Request failed with status code 500'')
      else
        Inr (JObj [(lit ''id'', field (data req) ''name''),
                   (lit ''url'', JStr (lit ''https://trello.com/b/1''))]))"

text \<open>What the board service of \<open>office\<close> answers, and the board it builds for a deal.\<close>

definition made :: "string \<Rightarrow> json" where
  "made name = JObj [(lit ''id'', JStr (lit name)), (lit ''url'', JStr (lit ''https://trello.com/b/1''))]"

definition office_board :: "string \<Rightarrow> project_board" where
  "office_board n =
     \<lparr>board = made (''Project: '' @ n),
      lists = \<lparr>lists_todo = made ''To Do'', lists_inProgress = made ''In Progress'',
               lists_done = made ''Done''\<rparr>,
      cards = [made ''Kickoff Meeting Scheduled'', made ''Requirements Gathering'',
               made ''System Setup'']\<rparr>"

text \<open>
  A CRM whose first access token has expired: it answers 401 to every request that does
  not carry the token \<open>access-2\<close>. Its token endpoint hands out the given value as
  the new access token.
\<close>

definition expiring :: "json \<Rightarrow> remote" where
  "expiring new_token hist req =
     (if url req = lit ''https://accounts.zoho.com/oauth/v2/token'' then
        Inr (JObj [(lit ''access_token'', new_token)])
      else if field (headers req) ''Authorization'' = JStr (lit ''Zoho-oauthtoken access-2'') then
        Inr (JStr [])
      else Inl (Some 401, lit ''Request failed with status code 401''))"

text \<open>
  A CRM that holds the deal 1002 and keeps what a write-back stores: its search returns
  the deal with the field \<open>Project_Board_ID_c\<close> set to the board id of the last
  write-back, once there was one.
\<close>

definition written :: "request list \<Rightarrow> json option" where
  "written hist =
     (case filter write_back hist of
        [] \<Rightarrow> None
      | r # rs \<Rightarrow>
          Some (field (case at0 (field (data (last (r # rs))) ''data'') of
                         Inr row \<Rightarrow> row | Inl e \<Rightarrow> JUndefined) ''Project_Board_ID_c''))"

definition crm :: remote where
  "crm hist req =
     (if http_method req = lit ''PUT'' then Inr accepted
      else
        Inr (JObj [(lit ''data'',
          JArr [JObj
            ([(lit ''id'', JStr (lit ''1002'')),
              (lit ''Deal_Name'', JStr (lit ''Borealis'')),
              (lit ''Stage'', JStr (lit ''Project Kickoff'')),
              (lit ''Type'', JStr (lit ''New Implementation Project''))]
             @ (case written hist of
                  None \<Rightarrow> []
                | Some b \<Rightarrow> [(lit ''Project_Board_ID_c'', b)]))])]))"

section \<open>Properties\<close>

subsection \<open>Strings, conversions and sequencing\<close>

lemma lit_eq_iff [simp]: "lit a = lit b \<longleftrightarrow> a = b"
  by (simp add: lit_def inj_map_eq_map[OF inj_of_char])

lemma lit_Nil [simp]: "lit [] = []"
  by (simp add: lit_def)

lemma lit_eq_Nil [simp]: "lit a = [] \<longleftrightarrow> a = []"
  by (simp add: lit_def)

lemma lit_append [simp]: "lit a @ lit b = lit (a @ b)"
  by (simp add: lit_def)

lemma dropWhile_all: "list_all P (dropWhile P s) \<longleftrightarrow> list_all P s"
  by (induction s) auto

lemma trim_empty_iff: "trim s = [] \<longleftrightarrow> list_all isWhiteSpace s"
proof -
  have "trim s = [] \<longleftrightarrow> list_all isWhiteSpace (dropWhile isWhiteSpace s)"
    by (simp add: trim_def dropWhile_eq_Nil_conv list_all_iff)
  then show ?thesis by (simp add: dropWhile_all)
qed

lemma andThen_simps [simp]: "andThen (Inl e) f = Inl e" "andThen (Inr x) f = f x"
  by (simp_all add: andThen_def)

lemma nonblank_cases:
  "is_text name \<or> \<not> truthy name \<Longrightarrow>
   nonblank e name = Inr (case name of JStr s \<Rightarrow> trim s \<noteq> [] | _ \<Rightarrow> False)"
  by (cases name) (auto simp: nonblank_def is_text_def trim_def)

lemma nonblank_True_iff:
  "nonblank e name = Inr True \<longleftrightarrow> (case name of JStr s \<Rightarrow> trim s \<noteq> [] | _ \<Rightarrow> False)"
  by (cases name) (auto simp: nonblank_def trim_def)


lemma get_Inr_all: "get deal k = Inr v \<Longrightarrow> \<exists>w. get deal k' = Inr w"
  by (cases deal) auto

lemma get_field: "get deal k = Inr v \<Longrightarrow> get deal k' = Inr (field deal k')"
  by (cases deal) (auto simp: field_def)

lemma trim_lit_Acme: "trim (lit ''Acme rollout'') = lit ''Acme rollout''"
  by (simp add: trim_def lit_def isWhiteSpace_def)

lemma trim_b77: "trim (lit ''b-77'') = lit ''b-77''"
  by (simp add: trim_def lit_def isWhiteSpace_def)

lemma ToString_raises:
  "ToString v = Inl e \<Longrightarrow> e = cannot_convert"
  "join_elements vs = Inl e \<Longrightarrow> e = cannot_convert"
  by (induction v and vs rule: ToString_join_elements.induct)
     (auto simp: cannot_convert_def split: option.splits sum.splits if_splits)

lemma ToString_printed: "printable v \<Longrightarrow> ToString v = Inr (printed v)"
  by (cases "ToString v") (auto simp: printable_def printed_def)

lemma ToString_not_printable: "\<not> printable v \<Longrightarrow> ToString v = Inl cannot_convert"
  by (cases "ToString v") (auto simp: printable_def dest: ToString_raises(1))

lemma ToString_Inr: "ToString v = Inr s \<longleftrightarrow> printable v \<and> s = printed v"
  by (cases "ToString v") (auto simp: printable_def printed_def)

lemma printable_text [simp]: "printable (JStr s)" "printed (JStr s) = s"
  by (simp_all add: printable_def printed_def)

lemma printable_falsy: "\<not> truthy v \<Longrightarrow> printable v"
  by (cases v) (auto simp: printable_def)


lemma opaque_not_printable [simp]: "\<not> printable opaque" "ToString opaque = Inl cannot_convert"
  by (simp_all add: printable_def opaque_def cannot_convert_def)

lemma interpolate_one: "interpolate [Inr v] = (if printable v then Inr () else Inl cannot_convert)"
  by (simp add: ToString_printed ToString_not_printable)

lemma interpolate_two:
  "interpolate [Inr v, Inr w] =
     (if printable v \<and> printable w then Inr () else Inl cannot_convert)"
  by (cases "printable v"; cases "printable w")
     (simp_all add: ToString_printed ToString_not_printable)

lemma bind_simps [simp]:
  "bind (return x) f = f x"
  "bind (throw e) f = throw e"
  "bind (lift (Inr x)) f = f x"
  "bind (lift (Inl e)) f = throw e"
  by (auto simp: bind_def return_def throw_def lift_def)

lemma bind_reads [simp]: "bind (reads g) f s = f (g s) s"
  by (simp add: bind_def reads_def)

lemma try_catch_rethrow [simp]: "try_catch m throw = m"
  by (auto simp: try_catch_def throw_def split: prod.splits sum.splits)

lemma try_catch_simps [simp]:
  "try_catch (return x) h = return x"
  "try_catch (throw e) h = h e"
  by (auto simp: try_catch_def return_def throw_def)

lemma bind_Inr: "m s = (Inr x, s') \<Longrightarrow> bind m f s = f x s'"
  by (simp add: bind_def)

lemma bind_Inl: "m s = (Inl e, s') \<Longrightarrow> bind m f s = (Inl e, s')"
  by (simp add: bind_def)

lemma try_catch_Inr: "m s = (Inr x, s') \<Longrightarrow> try_catch m h s = (Inr x, s')"
  by (simp add: try_catch_def)

lemma try_catch_Inl: "m s = (Inl e, s') \<Longrightarrow> try_catch m h s = h e s'"
  by (simp add: try_catch_def)

lemma bind_InrE:
  assumes "bind m f s = (Inr y, s'')"
  obtains x s' where "m s = (Inr x, s')" and "f x s' = (Inr y, s'')"
  using assms by (auto simp: bind_def split: prod.splits sum.splits)

lemma lift_Inr: "lift r s = (Inr x, s') \<longleftrightarrow> r = Inr x \<and> s' = s"
  by (auto simp: lift_def)

lemma return_Inr: "return x s = (Inr y, s') \<longleftrightarrow> y = x \<and> s' = s"
  by (auto simp: return_def)

lemma logs_one: "logs [Inr v] = (if printable v then return () else throw cannot_convert)"
  unfolding logs_def interpolate_one by (auto simp: lift_def return_def throw_def fun_eq_iff)

lemma logs_two:
  "logs [Inr v, Inr w] = (if printable v \<and> printable w then return () else throw cannot_convert)"
  unfolding logs_def interpolate_two by (auto simp: lift_def return_def throw_def fun_eq_iff)

lemma logs_Inr: "logs args s = (Inr u, s') \<longleftrightarrow> interpolate args = Inr () \<and> s' = s"
  by (auto simp: logs_def lift_def)

subsection \<open>validateDeal\<close>

lemma first_failing_three:
  "first_failing deal [a, b, c] =
     (if a \<and> b \<and> c then Inr True
      else andThen (interpolate [get deal ''id'']) (\<lambda>_. Inr False))"
  by simp

lemma validateDeal_unfold:
  assumes "get deal ''Deal_Name'' = Inr name"
  shows "validateDeal deal =
           andThen (nonblank ''deal.Deal_Name'' name) (\<lambda>named.
             if get deal ''Stage'' = Inr (JStr (lit ''Project Kickoff''))
                \<and> get deal ''Type'' = Inr (JStr (lit ''New Implementation Project''))
                \<and> named
             then Inr True
             else if printable (field deal ''id'') then Inr False else Inl cannot_convert)"
proof -
  have g: "get deal k = Inr (field deal k)" for k
    using assms by (rule get_field)
  have i: "interpolate [get deal ''id''] =
             (if printable (field deal ''id'') then Inr () else Inl cannot_convert)"
    unfolding g by (rule interpolate_one)
  show ?thesis
    using assms
    unfolding validateDeal_def first_failing_three i
    by (cases "nonblank ''deal.Deal_Name'' name") (auto simp: g)
qed

lemma validateDeal_True_iff:
  assumes "get deal ''Deal_Name'' = Inr name"
  shows "validateDeal deal = Inr True \<longleftrightarrow>
           get deal ''Stage'' = Inr (JStr (lit ''Project Kickoff''))
           \<and> get deal ''Type'' = Inr (JStr (lit ''New Implementation Project''))
           \<and> (case name of JStr s \<Rightarrow> trim s \<noteq> [] | _ \<Rightarrow> False)"
proof (cases "nonblank ''deal.Deal_Name'' name")
  case (Inl e)
  then have "\<not> (case name of JStr s \<Rightarrow> trim s \<noteq> [] | _ \<Rightarrow> False)"
    using nonblank_True_iff [of "''deal.Deal_Name''" name] by simp
  then show ?thesis
    using Inl by (simp add: validateDeal_unfold [OF assms])
next
  case (Inr named)
  then have "named \<longleftrightarrow> (case name of JStr s \<Rightarrow> trim s \<noteq> [] | _ \<Rightarrow> False)"
    using nonblank_True_iff [of "''deal.Deal_Name''" name] by simp
  then show ?thesis
    using Inr by (simp add: validateDeal_unfold [OF assms])
qed

lemma validateDeal_typed:
  assumes "get deal ''Deal_Name'' = Inr name" and "is_text name \<or> \<not> truthy name"
    and "printable (field deal ''id'')"
  shows "validateDeal deal =
           Inr (get deal ''Stage'' = Inr (JStr (lit ''Project Kickoff''))
              \<and> get deal ''Type'' = Inr (JStr (lit ''New Implementation Project''))
              \<and> (case name of JStr s \<Rightarrow> trim s \<noteq> [] | _ \<Rightarrow> False))"
  using assms(2,3) by (simp add: validateDeal_unfold [OF assms(1)] nonblank_cases)


text \<open>
  C6, as stated, fails. A deal whose stage is not "Project Kickoff" does not give false
  when its name is the number 42: the three conditions are computed before the first is
  looked at, and only a string has \<open>trim\<close>. A deal whose name is blank does not give
  false when its id is an object with a key \<open>toString\<close>: the warning that
  validateDeal logs before it returns false interpolates the id.
\<close>

theorem validateDeal_no_false_counterexample:
  "validateDeal (JObj [(lit ''Stage'', JStr (lit ''Negotiation'')),
                       (lit ''Type'', JStr (lit ''New Implementation Project'')),
                       (lit ''Deal_Name'', JNum 42)])
     = Inl (TypeError (lit ''deal.Deal_Name.trim is not a function''))
   \<and> validateDeal opaque_blank
     = Inl (TypeError (lit ''Cannot convert object to primitive value''))"
proof -
  have "validateDeal opaque_blank = Inl cannot_convert"
    by (simp add: validateDeal_unfold [of _ "JStr (lit ''  '')"] opaque_blank_def nonblank_def
        trim_def lit_def isWhiteSpace_def field_def)
  then show ?thesis
    by (simp add: validateDeal_def nonblank_def cannot_convert_def)
qed

text \<open>
  C6, amended. validateDeal returns true exactly when the stage is "Project Kickoff",
  the type is "New Implementation Project" and the name is a string with a character
  that is not white space. For a deal whose name is a string or is missing (any falsy
  value) and whose id a template can interpolate, as the strings of the data model are
  and can, the result is that of testing the three conditions in this order and
  stopping at the first that fails: a name that is empty, all white space or missing
  gives false, and so does a stage other than "Project Kickoff", whatever the other
  fields are.
\<close>

theorem validateDeal_checks:
  assumes "get deal ''Deal_Name'' = Inr name"
  shows "(validateDeal deal = Inr True \<longleftrightarrow>
            get deal ''Stage'' = Inr (JStr (lit ''Project Kickoff''))
            \<and> get deal ''Type'' = Inr (JStr (lit ''New Implementation Project''))
            \<and> (case name of JStr s \<Rightarrow> trim s \<noteq> [] | _ \<Rightarrow> False))
       \<and> ((is_text name \<or> \<not> truthy name) \<and> printable (field deal ''id'') \<longrightarrow>
             validateDeal deal =
               Inr (get deal ''Stage'' = Inr (JStr (lit ''Project Kickoff''))
                  \<and> get deal ''Type'' = Inr (JStr (lit ''New Implementation Project''))
                  \<and> (case name of JStr s \<Rightarrow> trim s \<noteq> [] | _ \<Rightarrow> False))
             \<and> ((case name of JStr s \<Rightarrow> list_all isWhiteSpace s | _ \<Rightarrow> True)
                  \<longrightarrow> validateDeal deal = Inr False)
             \<and> (get deal ''Stage'' \<noteq> Inr (JStr (lit ''Project Kickoff''))
                  \<longrightarrow> validateDeal deal = Inr False))"
proof -
  have typed: "validateDeal deal =
               Inr (get deal ''Stage'' = Inr (JStr (lit ''Project Kickoff''))
                  \<and> get deal ''Type'' = Inr (JStr (lit ''New Implementation Project''))
                  \<and> (case name of JStr s \<Rightarrow> trim s \<noteq> [] | _ \<Rightarrow> False))"
    if "is_text name \<or> \<not> truthy name" and "printable (field deal ''id'')"
    using assms that by (rule validateDeal_typed)
  have blank: "\<not> (case name of JStr s \<Rightarrow> trim s \<noteq> [] | _ \<Rightarrow> False)"
    if "case name of JStr s \<Rightarrow> list_all isWhiteSpace s | _ \<Rightarrow> True"
    using that by (cases name) (auto simp: trim_empty_iff)
  show ?thesis
    using validateDeal_True_iff [OF assms] typed blank by auto
qed

theorem validateDeal_checks_witness:
  "get acme ''Deal_Name'' = Inr (JStr (lit ''Acme rollout''))
   \<and> is_text (JStr (lit ''Acme rollout''))
   \<and> printable (field acme ''id'')
   \<and> validateDeal acme = Inr True
   \<and> get blank_deal ''Deal_Name'' = Inr (JStr (lit ''  ''))
   \<and> list_all isWhiteSpace (lit ''  '')
   \<and> printable (field blank_deal ''id'')
   \<and> validateDeal blank_deal = Inr False"
proof -
  have h1: "get acme ''Deal_Name'' = Inr (JStr (lit ''Acme rollout''))"
    by (simp add: acme_def)
  have h2: "get blank_deal ''Deal_Name'' = Inr (JStr (lit ''  ''))"
    by (simp add: blank_deal_def)
  have ws: "list_all isWhiteSpace (lit ''  '')"
    by (simp add: lit_def isWhiteSpace_def)
  have p: "printable (field acme ''id'')" "printable (field blank_deal ''id'')"
    by (simp_all add: field_def acme_def blank_deal_def)
  have a: "validateDeal acme = Inr True"
    using validateDeal_checks [OF h1] by (simp add: acme_def trim_lit_Acme)
  have b: "validateDeal blank_deal = Inr False"
    using validateDeal_checks [OF h2] ws p(2) by (simp add: is_text_def trim_empty_iff)
  show ?thesis
    using a b h1 h2 ws p by (simp add: is_text_def)
qed

text \<open>
  C10, as stated, fails. A deal whose name is a truthy value other than a string (here
  the number 42) makes validateDeal raise a TypeError, since only a string has
  \<open>trim\<close>. A deal without a name makes it raise, instead of giving false, when
  its id is an object with a key \<open>toString\<close>: the warning logged before
  \<open>return false\<close> interpolates the id.
\<close>

theorem validateDeal_raises_counterexample:
  "validateDeal (JObj [(lit ''Stage'', JStr (lit ''Project Kickoff'')),
                       (lit ''Type'', JStr (lit ''New Implementation Project'')),
                       (lit ''Deal_Name'', JNum 42)])
     = Inl (TypeError (lit ''deal.Deal_Name.trim is not a function''))
   \<and> validateDeal (JObj [(lit ''id'', opaque),
                         (lit ''Stage'', JStr (lit ''Project Kickoff'')),
                         (lit ''Type'', JStr (lit ''New Implementation Project''))])
     = Inl (TypeError (lit ''Cannot convert object to primitive value''))"
  by (simp add: validateDeal_def nonblank_def opaque_def)

text \<open>
  C10, amended. On every record object whose name is missing, \<open>undefined\<close>,
  \<open>null\<close> or otherwise falsy, or is a string, and whose id a template can
  interpolate (any id but an object with a key \<open>toString\<close> of its own, or an array
  that holds one), validateDeal returns a boolean and does not raise, whatever the
  stage and the type are (missing included); a record without a name gives false.
\<close>

theorem validateDeal_total:
  assumes "get (JObj kvs) ''Deal_Name'' = Inr name" and "is_text name \<or> \<not> truthy name"
    and "printable (field (JObj kvs) ''id'')"
  shows "(validateDeal (JObj kvs) = Inr True \<or> validateDeal (JObj kvs) = Inr False)
       \<and> (map_of kvs (lit ''Deal_Name'') = None \<longrightarrow> validateDeal (JObj kvs) = Inr False)"
  using assms by (auto simp: validateDeal_typed [OF assms])

theorem validateDeal_total_witness:
  "get (JObj [(lit ''id'', JStr (lit ''7''))]) ''Deal_Name'' = Inr JUndefined
   \<and> printable (field (JObj [(lit ''id'', JStr (lit ''7''))]) ''id'')
   \<and> map_of [(lit ''id'', JStr (lit ''7''))] (lit ''Deal_Name'') = None
   \<and> validateDeal (JObj [(lit ''id'', JStr (lit ''7''))]) = Inr False"
proof -
  have p: "printable (field (JObj [(lit ''id'', JStr (lit ''7''))]) ''id'')"
    by (simp add: field_def)
  show ?thesis
    using validateDeal_total [of "[(lit ''id'', JStr (lit ''7''))]" JUndefined] p
    by simp
qed

subsection \<open>The requests of ZohoService\<close>

lemma zoho_config_cases:
  "zoho_config z ep m b =
     (if printable (zohoBaseUrl z) \<and> printable (accessToken z) then Inr (zoho_call z ep m b)
      else Inl cannot_convert)"
  by (cases "printable (zohoBaseUrl z)"; cases "printable (accessToken z)")
     (simp_all add: zoho_config_def zoho_call_def ToString_printed ToString_not_printable)

lemma zoho_config_Inr:
  "zoho_config z ep m b = Inr r \<longleftrightarrow>
     printable (zohoBaseUrl z) \<and> printable (accessToken z) \<and> r = zoho_call z ep m b"
  by (auto simp: zoho_config_cases)

lemma zoho_config_text:
  "zohoBaseUrl z = JStr base \<Longrightarrow> accessToken z = JStr tok \<Longrightarrow>
   zoho_config z ep m b = Inr (zoho_call z ep m b)"
  by (simp add: zoho_config_cases)

lemma refresh_request_quiet: "fetch_request (refresh_request z)"
  by (simp add: fetch_request_def provisioning_def write_back_def to_trello_def refresh_request_def)

lemma zoho_call_quiet: "m \<noteq> lit ''PUT'' \<Longrightarrow> fetch_request (zoho_call z ep m b)"
  by (simp add: fetch_request_def provisioning_def write_back_def to_trello_def zoho_call_def
      zoho_request_def Let_def)

lemma axios_sent: "axios env r s = (res, s') \<Longrightarrow> s' = s\<lparr>sent := sent s @ [r]\<rparr>"
  by (auto simp: axios_def split: sum.splits prod.splits)

lemma axios_Inr:
  "axios env r s = (Inr body, s') \<longleftrightarrow> env (sent s) r = Inr body \<and> s' = s\<lparr>sent := sent s @ [r]\<rparr>"
  by (auto simp: axios_def split: sum.splits)

lemma refreshAccessToken_unfold:
  "refreshAccessToken env s =
     (case env (sent s) (refresh_request (zohoService s)) of
        Inl f \<Rightarrow> (Inl (Error (lit ''Failed to refresh access token'')),
                  s\<lparr>sent := sent s @ [refresh_request (zohoService s)]\<rparr>)
      | Inr body \<Rightarrow>
          (case get body ''access_token'' of
             Inl e \<Rightarrow> (Inl (Error (lit ''Failed to refresh access token'')),
                      s\<lparr>sent := sent s @ [refresh_request (zohoService s)]\<rparr>)
           | Inr t \<Rightarrow> (Inr t, s\<lparr>sent := sent s @ [refresh_request (zohoService s)],
                              zohoService := (zohoService s)\<lparr>accessToken := t\<rparr>\<rparr>)))"
  by (simp add: refreshAccessToken_def try_catch_def bind_def reads_def axios_def lift_def
      set_accessToken_def return_def throw_def split: sum.splits prod.splits)

lemma refreshAccessToken_sent:
  assumes "refreshAccessToken env s = (res, s')"
  shows "sent s' = sent s @ [refresh_request (zohoService s)] \<and> trelloService s' = trelloService s"
  using assms by (auto simp: refreshAccessToken_unfold split: sum.splits)

lemma zoho_makeRequest_unfold:
  "zoho_makeRequest env ep m b s =
     (case zoho_config (zohoService s) ep m b of
        Inl e \<Rightarrow> (Inl e, s)
      | Inr r1 \<Rightarrow>
          (case axios env r1 s of
             (Inr x, s1) \<Rightarrow> (Inr x, s1)
           | (Inl e, s1) \<Rightarrow>
               if response_status e = Some 401 then
                 (case refreshAccessToken env s1 of
                    (Inl e', s2) \<Rightarrow> (Inl e', s2)
                  | (Inr t, s2) \<Rightarrow>
                      (case zoho_config (zohoService s2) ep m b of
                         Inl e'' \<Rightarrow> (Inl e'', s2)
                       | Inr r3 \<Rightarrow> axios env r3 s2))
               else (Inl e, s1)))"
proof (cases "zoho_config (zohoService s) ep m b")
  case (Inl e)
  then have "response_status e = None"
    by (auto simp: zoho_config_cases cannot_convert_def split: if_splits)
  then show ?thesis
    using Inl by (simp add: zoho_makeRequest_def try_catch_def bind_def reads_def lift_def throw_def)
next
  case (Inr r1)
  then show ?thesis
    by (simp add: zoho_makeRequest_def try_catch_def bind_def reads_def lift_def throw_def
        split: prod.splits sum.splits)
qed

lemma zoho_makeRequest_sent:
  assumes "zoho_makeRequest env ep m b s = (res, s')" and "m \<noteq> lit ''PUT''"
  shows "\<exists>new. sent s' = sent s @ new \<and> list_all fetch_request new"
proof (cases "zoho_config (zohoService s) ep m b")
  case (Inl e)
  then have "s' = s"
    using assms(1) by (simp add: zoho_makeRequest_unfold)
  then show ?thesis by simp
next
  case (Inr r1)
  then have r1: "r1 = zoho_call (zohoService s) ep m b"
    by (simp add: zoho_config_Inr)
  obtain a1 s1 where a1: "axios env r1 s = (a1, s1)"
    by (cases "axios env r1 s")
  have s1: "sent s1 = sent s @ [r1]"
    using axios_sent [OF a1] by simp
  have q: "fetch_request (zoho_call z ep m b)" for z
    using assms(2) by (rule zoho_call_quiet)
  show ?thesis
  proof (cases "\<exists>e. a1 = Inl e \<and> response_status e = Some 401")
    case False
    then have "s' = s1"
      using assms(1) Inr a1 by (cases a1) (auto simp: zoho_makeRequest_unfold)
    then show ?thesis
      using s1 r1 q by simp
  next
    case True
    then obtain e where e: "a1 = Inl e" "response_status e = Some 401" by blast
    obtain r2 s2 where rf: "refreshAccessToken env s1 = (r2, s2)"
      by (cases "refreshAccessToken env s1")
    have s2: "sent s2 = sent s @ [r1, refresh_request (zohoService s1)]"
      using refreshAccessToken_sent [OF rf] s1 by simp
    show ?thesis
    proof (cases "\<exists>t r3. r2 = Inr t \<and> zoho_config (zohoService s2) ep m b = Inr r3")
      case False
      then have "s' = s2"
        using assms(1) Inr a1 e rf
        by (cases r2; cases "zoho_config (zohoService s2) ep m b")
           (auto simp: zoho_makeRequest_unfold)
      then show ?thesis
        using s2 r1 q by (simp add: refresh_request_quiet)
    next
      case True
      then obtain t r3 where t: "r2 = Inr t" "zoho_config (zohoService s2) ep m b = Inr r3"
        by blast
      then have "axios env r3 s2 = (res, s')"
        using assms(1) Inr a1 e rf by (simp add: zoho_makeRequest_unfold)
      then have "sent s' = sent s2 @ [r3]"
        by (auto dest: axios_sent)
      moreover have "r3 = zoho_call (zohoService s2) ep m b"
        using t(2) by (simp add: zoho_config_Inr)
      ultimately show ?thesis
        using s2 r1 q by (simp add: refresh_request_quiet)
    qed
  qed
qed

lemma getEligibleDeals_unfold:
  "getEligibleDeals env s =
     (case zoho_makeRequest env (lit ''/Deals/search?criteria='' @ encoded_criteria)
             (lit ''GET'') JNull s of
        (Inl e, s1) \<Rightarrow> (Inl e, s1)
      | (Inr response, s1) \<Rightarrow>
          (andThen (get response ''data'') (\<lambda>rows.
             if \<not> truthy rows then Inr []
             else call_filter ''response.data'' rows board_id_empty), s1))"
  by (simp add: getEligibleDeals_def bind_def lift_def return_def andThen_def
      split: prod.splits sum.splits)

lemma getEligibleDeals_sent:
  assumes "getEligibleDeals env s = (res, s')"
  shows "\<exists>new. sent s' = sent s @ new \<and> list_all fetch_request new"
proof -
  obtain r1 where "zoho_makeRequest env (lit ''/Deals/search?criteria='' @ encoded_criteria)
                (lit ''GET'') JNull s = (r1, s')"
    using assms by (auto simp: getEligibleDeals_unfold split: prod.splits sum.splits)
  then show ?thesis
    by (rule zoho_makeRequest_sent) simp
qed

lemma zoho_makeRequest_answered:
  assumes "zohoService s = demo_zoho" and "env (sent s) (zoho_call demo_zoho ep m b) = Inr body"
  shows "zoho_makeRequest env ep m b s = (Inr body, s\<lparr>sent := sent s @ [zoho_call demo_zoho ep m b]\<rparr>)"
  using assms by (simp add: zoho_makeRequest_unfold zoho_config_text demo_zoho_def axios_def)

lemma getEligibleDeals_no_content:
  "getEligibleDeals no_content start =
     (Inr [], start\<lparr>sent := [search_request demo_zoho]\<rparr>)"
proof -
  have "zoho_makeRequest no_content (lit ''/Deals/search?criteria='' @ encoded_criteria)
          (lit ''GET'') JNull start = (Inr (JStr []), start\<lparr>sent := [search_request demo_zoho]\<rparr>)"
    using zoho_makeRequest_answered [of start no_content] 
    by (simp add: start_def no_content_def search_request_def)
  then show ?thesis
    by (simp add: getEligibleDeals_unfold)
qed

lemma getEligibleDeals_unreachable:
  "getEligibleDeals unreachable start =
     (Inl (AxiosError None (lit ''connect ECONNREFUSED'')),
      start\<lparr>sent := [search_request demo_zoho]\<rparr>)"
  by (simp add: getEligibleDeals_unfold zoho_makeRequest_unfold axios_def unreachable_def
      start_def search_request_def zoho_config_text demo_zoho_def)

lemma written_put:
  "written [put_request z i b] = Some b"
  by (simp add: written_def write_back_def put_request_def zoho_call_def zoho_request_def
      update_data_def field_def)

lemma getEligibleDeals_crm:
  "getEligibleDeals crm
         (start\<lparr>sent := [put_request demo_zoho ''1002'' (JStr (lit ''b-77''))]\<rparr>)
     = (Inr [linked_deal],
        start\<lparr>sent := [put_request demo_zoho ''1002'' (JStr (lit ''b-77'')),
                        search_request demo_zoho]\<rparr>)"
proof -
  let ?s = "start\<lparr>sent := [put_request demo_zoho ''1002'' (JStr (lit ''b-77''))]\<rparr>"
  have keep: "board_id_empty linked_deal = Inr True"
    by (simp add: board_id_empty_def linked_deal_def)
  have z: "zohoService ?s = demo_zoho"
    by (simp add: start_def)
  have "crm (sent ?s) (search_request demo_zoho) = Inr (JObj [(lit ''data'', JArr [linked_deal])])"
    by (simp add: crm_def written_put search_request_def zoho_call_def zoho_request_def
        linked_deal_def)
  then have "zoho_makeRequest crm (lit ''/Deals/search?criteria='' @ encoded_criteria)
          (lit ''GET'') JNull ?s =
        (Inr (JObj [(lit ''data'', JArr [linked_deal])]),
         ?s\<lparr>sent := sent ?s @ [search_request demo_zoho]\<rparr>)"
    using zoho_makeRequest_answered [OF z, of crm] by (simp add: search_request_def)
  then show ?thesis
    by (simp add: getEligibleDeals_unfold keep)
qed

text \<open>
  C7. When getEligibleDeals returns the empty list, syncDealsToTrello returns
  \<open>{processed: 0, created: 0, errors: 0, details: []}\<close> in the state the fetch
  left: the only requests of the run are those of the fetch, none of which is a
  board-provisioning request or a write-back.
\<close>

theorem sync_without_deals:
  assumes "getEligibleDeals env s = (Inr [], s')"
  shows "syncDealsToTrello env s =
           (Inr \<lparr>processed = 0, created = 0, errors = 0, details = []\<rparr>, s')
       \<and> (\<exists>new. sent s' = sent s @ new
              \<and> list_all (\<lambda>r. \<not> provisioning r \<and> \<not> write_back r) new)"
proof -
  have "syncDealsToTrello env s =
           (Inr \<lparr>processed = 0, created = 0, errors = 0, details = []\<rparr>, s')"
    using assms by (simp add: syncDealsToTrello_def bind_Inr return_def)
  moreover have "\<exists>new. sent s' = sent s @ new
              \<and> list_all (\<lambda>r. \<not> provisioning r \<and> \<not> write_back r) new"
    using getEligibleDeals_sent [OF assms] unfolding fetch_request_def .
  ultimately show ?thesis by simp
qed

theorem sync_without_deals_witness:
  "getEligibleDeals no_content start = (Inr [], start\<lparr>sent := [search_request demo_zoho]\<rparr>)
   \<and> syncDealsToTrello no_content start =
       (Inr \<lparr>processed = 0, created = 0, errors = 0, details = []\<rparr>,
        start\<lparr>sent := [search_request demo_zoho]\<rparr>)"
  using sync_without_deals [OF getEligibleDeals_no_content] getEligibleDeals_no_content
  by simp

text \<open>
  C8. When getEligibleDeals raises, syncDealsToTrello returns no result and raises the
  same error, having sent no board-provisioning request and no write-back; the handler
  of \<open>POST /sync\<close> catches it and answers with status 500, and the callback of the
  scheduler catches it and returns, so neither caller raises.
\<close>

theorem sync_fetch_failure:
  assumes "getEligibleDeals env s = (Inl e, s')"
  shows "syncDealsToTrello env s = (Inl e, s')
       \<and> (\<exists>new. sent s' = sent s @ new
              \<and> list_all (\<lambda>r. \<not> provisioning r \<and> \<not> write_back r) new)
       \<and> post_sync env s = (Inr \<lparr>http_status = 500, http_body = SyncFailed\<rparr>, s')
       \<and> scheduled_sync env s = (Inr (), s')"
proof -
  have top: "syncDealsToTrello env s = (Inl e, s')"
    using assms by (simp add: syncDealsToTrello_def bind_Inl)
  have "\<exists>new. sent s' = sent s @ new
              \<and> list_all (\<lambda>r. \<not> provisioning r \<and> \<not> write_back r) new"
    using getEligibleDeals_sent [OF assms] unfolding fetch_request_def .
  moreover have "post_sync env s = (Inr \<lparr>http_status = 500, http_body = SyncFailed\<rparr>, s')"
    using top by (simp add: post_sync_def try_catch_def bind_Inl return_def)
  moreover have "scheduled_sync env s = (Inr (), s')"
    using top by (simp add: scheduled_sync_def try_catch_def bind_Inl return_def)
  ultimately show ?thesis using top by simp
qed

theorem sync_fetch_failure_witness:
  "getEligibleDeals unreachable start =
     (Inl (AxiosError None (lit ''connect ECONNREFUSED'')),
      start\<lparr>sent := [search_request demo_zoho]\<rparr>)
   \<and> syncDealsToTrello unreachable start =
       (Inl (AxiosError None (lit ''connect ECONNREFUSED'')),
        start\<lparr>sent := [search_request demo_zoho]\<rparr>)
   \<and> post_sync unreachable start =
       (Inr \<lparr>http_status = 500, http_body = SyncFailed\<rparr>,
        start\<lparr>sent := [search_request demo_zoho]\<rparr>)"
  using sync_fetch_failure [OF getEligibleDeals_unreachable] getEligibleDeals_unreachable
  by simp

subsection \<open>The token refresh of ZohoService.makeRequest\<close>

lemma expiring_refresh:
  "expiring t hist (refresh_request z) = Inr (JObj [(lit ''access_token'', t)])"
  by (simp add: expiring_def refresh_request_def)

lemma expiring_first:
  "expiring t hist (org_request demo_zoho) = Inl (Some 401, lit ''Request failed with status code 401'')"
  by (simp add: expiring_def org_request_def zoho_call_def zoho_request_def demo_zoho_def field_def)

lemma expiring_retry:
  "expiring t hist (org_request (demo_zoho\<lparr>accessToken := JStr (lit ''access-2'')\<rparr>)) = Inr (JStr [])"
  by (simp add: expiring_def org_request_def zoho_call_def zoho_request_def demo_zoho_def field_def)

lemma refreshAccessToken_expiring:
  "zohoService s = demo_zoho \<Longrightarrow>
   refreshAccessToken (expiring t) s =
     (Inr t, s\<lparr>sent := sent s @ [refresh_request demo_zoho],
              zohoService := demo_zoho\<lparr>accessToken := t\<rparr>\<rparr>)"
  by (simp add: refreshAccessToken_unfold expiring_refresh)

text \<open>
  C9, as stated, fails. The CRM answers 401 and its token endpoint answers with an
  access token that is an object with a key \<open>toString\<close>. The refresh succeeds and
  stores the token; the template of the Authorization header of the retry then raises,
  and makeRequest raises that TypeError having sent the request and the refresh only:
  there is no retry, and the refresh did not fail.
\<close>

theorem makeRequest_no_retry_counterexample:
  "zoho_config (zohoService start) (lit ''/org'') (lit ''GET'') JNull = Inr (org_request demo_zoho)
   \<and> expiring opaque (sent start) (org_request demo_zoho)
       = Inl (Some 401, lit ''Request failed with status code 401'')
   \<and> refreshAccessToken (expiring opaque) (start\<lparr>sent := [org_request demo_zoho]\<rparr>)
       = (Inr opaque,
          start\<lparr>sent := [org_request demo_zoho, refresh_request demo_zoho],
                zohoService := demo_zoho\<lparr>accessToken := opaque\<rparr>\<rparr>)
   \<and> zoho_makeRequest (expiring opaque) (lit ''/org'') (lit ''GET'') JNull start
       = (Inl (TypeError (lit ''Cannot convert object to primitive value'')),
          start\<lparr>sent := [org_request demo_zoho, refresh_request demo_zoho],
                zohoService := demo_zoho\<lparr>accessToken := opaque\<rparr>\<rparr>)"
proof -
  have cfg: "zoho_config (zohoService start) (lit ''/org'') (lit ''GET'') JNull
               = Inr (org_request demo_zoho)"
    by (simp add: zoho_config_text start_def demo_zoho_def org_request_def)
  have rf: "refreshAccessToken (expiring opaque) (start\<lparr>sent := [org_request demo_zoho]\<rparr>)
       = (Inr opaque,
          start\<lparr>sent := [org_request demo_zoho, refresh_request demo_zoho],
                zohoService := demo_zoho\<lparr>accessToken := opaque\<rparr>\<rparr>)"
    using refreshAccessToken_expiring [of "start\<lparr>sent := [org_request demo_zoho]\<rparr>" opaque]
    by (simp add: start_def)
  have again: "zoho_config (demo_zoho\<lparr>accessToken := opaque\<rparr>) (lit ''/org'') (lit ''GET'') JNull
                 = Inl cannot_convert"
    by (simp add: zoho_config_cases)
  have "zoho_makeRequest (expiring opaque) (lit ''/org'') (lit ''GET'') JNull start
       = (Inl cannot_convert,
          start\<lparr>sent := [org_request demo_zoho, refresh_request demo_zoho],
                zohoService := demo_zoho\<lparr>accessToken := opaque\<rparr>\<rparr>)"
    unfolding zoho_makeRequest_unfold cfg
    by (simp add: axios_def expiring_first)
      (simp add: start_def refreshAccessToken_expiring again)
  then show ?thesis
    using cfg rf by (simp add: expiring_first cannot_convert_def)
qed

text \<open>
  C9, amended. Let the first attempt of a CRM request fail. If the failure is not a
  response with status 401, makeRequest raises it at once, having sent that one request.
  If it is, makeRequest refreshes the token once. When the refresh fails, makeRequest
  raises the error of the refresh, having sent the request and the refresh and nothing
  else. When it succeeds and the new token converts to a string for the Authorization
  header, as a string does, makeRequest sends the request once more, the same but for
  the new token, and its outcome is the outcome of that single retry, success or
  failure: the first attempt, the refresh and the retry are all the requests it sends.
  When the new token does not convert, makeRequest raises the TypeError of the header
  and sends nothing after the refresh.
\<close>

theorem makeRequest_refreshes_once:
  assumes "zoho_config (zohoService s) ep m b = Inr r1"
    and "env (sent s) r1 = Inl (st, msg)"
  shows "(st \<noteq> Some 401 \<longrightarrow>
            zoho_makeRequest env ep m b s =
              (Inl (AxiosError st msg), s\<lparr>sent := sent s @ [r1]\<rparr>))
       \<and> (st = Some 401 \<longrightarrow>
            (case refreshAccessToken env (s\<lparr>sent := sent s @ [r1]\<rparr>) of
               (Inl e, s2) \<Rightarrow>
                 e = Error (lit ''Failed to refresh access token'')
                 \<and> zoho_makeRequest env ep m b s = (Inl e, s2)
                 \<and> sent s2 = sent s @ [r1, refresh_request (zohoService s)]
             | (Inr t, s2) \<Rightarrow>
                 zohoService s2 = (zohoService s)\<lparr>accessToken := t\<rparr>
                 \<and> sent s2 = sent s @ [r1, refresh_request (zohoService s)]
                 \<and> (printable t \<longrightarrow>
                      zoho_makeRequest env ep m b s =
                        axios env (zoho_call ((zohoService s)\<lparr>accessToken := t\<rparr>) ep m b) s2
                      \<and> sent (snd (zoho_makeRequest env ep m b s)) =
                          sent s @ [r1, refresh_request (zohoService s),
                                    zoho_call ((zohoService s)\<lparr>accessToken := t\<rparr>) ep m b])
                 \<and> (\<not> printable t \<longrightarrow>
                      zoho_makeRequest env ep m b s
                        = (Inl (TypeError (lit ''Cannot convert object to primitive value'')), s2))))"
proof -
  let ?s1 = "s\<lparr>sent := sent s @ [r1]\<rparr>"
  have base: "printable (zohoBaseUrl (zohoService s))"
    using assms(1) by (simp add: zoho_config_Inr)
  have first: "axios env r1 s = (Inl (AxiosError st msg), ?s1)"
    using assms(2) by (simp add: axios_def)
  have other: "zoho_makeRequest env ep m b s = (Inl (AxiosError st msg), ?s1)" if "st \<noteq> Some 401"
    using that first assms(1) by (simp add: zoho_makeRequest_unfold)
  have expired: "case refreshAccessToken env ?s1 of
               (Inl e, s2) \<Rightarrow>
                 e = Error (lit ''Failed to refresh access token'')
                 \<and> zoho_makeRequest env ep m b s = (Inl e, s2)
                 \<and> sent s2 = sent s @ [r1, refresh_request (zohoService s)]
             | (Inr t, s2) \<Rightarrow>
                 zohoService s2 = (zohoService s)\<lparr>accessToken := t\<rparr>
                 \<and> sent s2 = sent s @ [r1, refresh_request (zohoService s)]
                 \<and> (printable t \<longrightarrow>
                      zoho_makeRequest env ep m b s =
                        axios env (zoho_call ((zohoService s)\<lparr>accessToken := t\<rparr>) ep m b) s2
                      \<and> sent (snd (zoho_makeRequest env ep m b s)) =
                          sent s @ [r1, refresh_request (zohoService s),
                                    zoho_call ((zohoService s)\<lparr>accessToken := t\<rparr>) ep m b])
                 \<and> (\<not> printable t \<longrightarrow>
                      zoho_makeRequest env ep m b s
                        = (Inl (TypeError (lit ''Cannot convert object to primitive value'')), s2))"
    if "st = Some 401"
  proof (cases "refreshAccessToken env ?s1")
    case (Pair r2 s2)
    show ?thesis
    proof (cases r2)
      case (Inl e)
      with Pair have "e = Error (lit ''Failed to refresh access token'')"
        and "sent s2 = sent s @ [r1, refresh_request (zohoService s)]"
        by (auto simp: refreshAccessToken_unfold split: sum.splits)
      moreover have "zoho_makeRequest env ep m b s = (Inl e, s2)"
        using Pair Inl first that assms(1) by (simp add: zoho_makeRequest_unfold)
      ultimately show ?thesis
        using Pair Inl by simp
    next
      case (Inr t)
      with Pair have z: "zohoService s2 = (zohoService s)\<lparr>accessToken := t\<rparr>"
        and s2: "sent s2 = sent s @ [r1, refresh_request (zohoService s)]"
        by (auto simp: refreshAccessToken_unfold split: sum.splits)
      have mk: "zoho_makeRequest env ep m b s =
                  (case zoho_config ((zohoService s)\<lparr>accessToken := t\<rparr>) ep m b of
                     Inl e'' \<Rightarrow> (Inl e'', s2) | Inr r3 \<Rightarrow> axios env r3 s2)"
        using Pair Inr first that z assms(1) by (simp add: zoho_makeRequest_unfold)
      have good: "zoho_makeRequest env ep m b s =
                    axios env (zoho_call ((zohoService s)\<lparr>accessToken := t\<rparr>) ep m b) s2"
        if "printable t"
        using that base by (simp add: mk zoho_config_cases)
      have bad: "zoho_makeRequest env ep m b s = (Inl cannot_convert, s2)" if "\<not> printable t"
        using that by (simp add: mk zoho_config_cases)
      have "sent (snd (axios env r s2)) = sent s2 @ [r]" for r
        by (simp add: axios_def split: sum.splits prod.splits)
      then show ?thesis
        using Pair Inr z s2 good bad by (simp add: cannot_convert_def)
    qed
  qed
  show ?thesis
    using other expired by blast
qed

theorem makeRequest_refreshes_once_witness:
  "zoho_config (zohoService start) (lit ''/org'') (lit ''GET'') JNull = Inr (org_request demo_zoho)
   \<and> expiring (JStr (lit ''access-2'')) (sent start) (org_request demo_zoho)
     = Inl (Some 401, lit ''Request failed with status code 401'')
   \<and> zoho_makeRequest (expiring (JStr (lit ''access-2''))) (lit ''/org'') (lit ''GET'') JNull start =
       (Inr (JStr []),
        start\<lparr>sent := [org_request demo_zoho, refresh_request demo_zoho,
                        org_request (demo_zoho\<lparr>accessToken := JStr (lit ''access-2'')\<rparr>)],
              zohoService := demo_zoho\<lparr>accessToken := JStr (lit ''access-2'')\<rparr>\<rparr>)"
proof -
  have cfg: "zoho_config (zohoService start) (lit ''/org'') (lit ''GET'') JNull
               = Inr (org_request demo_zoho)"
    by (simp add: zoho_config_text start_def demo_zoho_def org_request_def)
  have h: "expiring (JStr (lit ''access-2'')) (sent start) (org_request demo_zoho)
     = Inl (Some 401, lit ''Request failed with status code 401'')"
    by (rule expiring_first)
  have rf: "refreshAccessToken (expiring (JStr (lit ''access-2'')))
              (start\<lparr>sent := sent start @ [org_request demo_zoho]\<rparr>)
       = (Inr (JStr (lit ''access-2'')),
          start\<lparr>sent := [org_request demo_zoho, refresh_request demo_zoho],
                zohoService := demo_zoho\<lparr>accessToken := JStr (lit ''access-2'')\<rparr>\<rparr>)"
    using refreshAccessToken_expiring
      [of "start\<lparr>sent := sent start @ [org_request demo_zoho]\<rparr>" "JStr (lit ''access-2'')"]
    by (simp add: start_def)
  have z: "zohoService start = demo_zoho"
    by (simp add: start_def)
  show ?thesis
    using makeRequest_refreshes_once [where env = "expiring (JStr (lit ''access-2''))"
        and s = start and ep = "lit ''/org''" and m = "lit ''GET''" and b = JNull, OF cfg h] cfg h
    by (simp add: rf z axios_def org_request_def [symmetric] expiring_retry)
qed

subsection \<open>createProjectBoard\<close>

lemma rethrow_never_returns: "bind m (\<lambda>_. throw e) s \<noteq> (Inr y, s')"
  by (auto simp: bind_def throw_def split: prod.splits sum.splits)

lemma try_catch_logged_Inr:
  "try_catch m (\<lambda>e. bind (logs xs) (\<lambda>_. throw e)) s = (Inr y, s') \<longleftrightarrow> m s = (Inr y, s')"
  by (cases "m s"; cases "fst (m s)") (auto simp: try_catch_def rethrow_never_returns)

lemma trello_config_cases:
  "trello_config t ep m b =
     (if printable (trelloBaseUrl t) then Inr (trello_call t ep m b) else Inl cannot_convert)"
  by (cases "printable (trelloBaseUrl t)")
     (simp_all add: trello_config_def trello_call_def ToString_printed ToString_not_printable)

lemma trello_makeRequest_unfold:
  "trello_makeRequest env ep m b s =
     (if printable (trelloBaseUrl (trelloService s))
      then axios env (trello_call (trelloService s) ep m b) s
      else (Inl cannot_convert, s))"
  by (simp add: trello_makeRequest_def trello_config_cases throw_def)

lemma trello_makeRequest_Inr:
  "trello_makeRequest env ep m b s = (Inr body, s') \<longleftrightarrow>
     printable (trelloBaseUrl (trelloService s))
     \<and> env (sent s) (trello_call (trelloService s) ep m b) = Inr body
     \<and> s' = s\<lparr>sent := sent s @ [trello_call (trelloService s) ep m b]\<rparr>"
  by (auto simp: trello_makeRequest_unfold axios_Inr)

lemma createBoard_Inr:
  assumes "createBoard env n d s = (Inr b, s')"
  shows "env (sent s) (trello_call (trelloService s) (lit ''/boards'') (lit ''POST'') (boardData n d)) = Inr b
       \<and> s' = s\<lparr>sent := sent s @ [trello_call (trelloService s) (lit ''/boards'') (lit ''POST'') (boardData n d)]\<rparr>
       \<and> get b ''id'' = Inr (field b ''id'')
       \<and> printable (trelloBaseUrl (trelloService s))
       \<and> printable (field b ''id'')"
proof -
  from assms obtain s1 u s2 where
    r: "trello_makeRequest env (lit ''/boards'') (lit ''POST'') (boardData n d) s = (Inr b, s1)"
    and l: "logs [Inr n, get b ''id''] s1 = (Inr u, s2)"
    and e: "s' = s2"
    unfolding createBoard_def try_catch_logged_Inr
    by (elim bind_InrE) (auto simp: return_Inr)
  from l have "interpolate [Inr n, get b ''id''] = Inr ()" "s2 = s1"
    by (auto simp: logs_Inr)
  then have "get b ''id'' = Inr (field b ''id'')" "printable (field b ''id'')"
    by (cases "get b ''id''"; cases "ToString n"; cases "ToString (field b ''id'')";
        auto simp: field_def printable_def)+
  then show ?thesis
    using r l e \<open>s2 = s1\<close> by (auto simp: trello_makeRequest_Inr)
qed

lemma createList_Inr:
  assumes "createList env i n p s = (Inr l, s')"
  shows "env (sent s) (trello_call (trelloService s) (lit ''/lists'') (lit ''POST'') (listData i n p)) = Inr l
       \<and> s' = s\<lparr>sent := sent s @ [trello_call (trelloService s) (lit ''/lists'') (lit ''POST'') (listData i n p)]\<rparr>"
  using assms unfolding createList_def try_catch_logged_Inr
  by (elim bind_InrE) (auto simp: return_Inr logs_Inr trello_makeRequest_Inr)

lemma createCard_Inr:
  assumes "createCard env i n d s = (Inr c, s')"
  shows "env (sent s) (trello_call (trelloService s) (lit ''/cards'') (lit ''POST'') (cardData i n d)) = Inr c
       \<and> s' = s\<lparr>sent := sent s @ [trello_call (trelloService s) (lit ''/cards'') (lit ''POST'') (cardData i n d)]\<rparr>"
  using assms unfolding createCard_def try_catch_logged_Inr
  by (elim bind_InrE) (auto simp: return_Inr logs_Inr trello_makeRequest_Inr)

lemma createCards_three:
  assumes "createCards env l [a, b, c] [] s = (Inr cs, s')"
  shows "\<exists>c1 c2 c3. cs = [c1, c2, c3] \<and> get l ''id'' = Inr (field l ''id'')
       \<and> s' = s\<lparr>sent := sent s @
            map (\<lambda>n. trello_call (trelloService s) (lit ''/cards'') (lit ''POST'')
                       (cardData (field l ''id'') (JStr n) (JStr []))) [a, b, c]\<rparr>
       \<and> replies env (sent s)
            (map (\<lambda>n. trello_call (trelloService s) (lit ''/cards'') (lit ''POST'')
                       (cardData (field l ''id'') (JStr n) (JStr []))) [a, b, c])
          = map Inr cs"
proof -
  from assms obtain i t1 c1 t2 i2 t3 c2 t4 i3 t5 c3 t6 where
    i: "lift (get l ''id'') s = (Inr i, t1)"
    and c1: "createCard env i (JStr a) (JStr []) t1 = (Inr c1, t2)"
    and i2: "lift (get l ''id'') t2 = (Inr i2, t3)"
    and c2: "createCard env i2 (JStr b) (JStr []) t3 = (Inr c2, t4)"
    and i3: "lift (get l ''id'') t4 = (Inr i3, t5)"
    and c3: "createCard env i3 (JStr c) (JStr []) t5 = (Inr c3, t6)"
    and r: "return [c1, c2, c3] t6 = (Inr cs, s')"
    by (simp only: createCards.simps append_Nil append_Cons) (elim bind_InrE, blast)
  have ids: "get l ''id'' = Inr (field l ''id'')" "i = field l ''id''" "i2 = i" "i3 = i"
    "t1 = s" "t3 = t2" "t5 = t4"
    using i i2 i3 by (auto simp: lift_Inr field_def)
  show ?thesis
    using createCard_Inr [OF c1] createCard_Inr [OF c2] createCard_Inr [OF c3] r ids
    by (simp add: return_Inr)
qed

lemma boardName_Inr:
  "boardName n = Inr v \<longleftrightarrow> printable n \<and> v = JStr (lit ''Project: '' @ printed n)"
  by (cases "printable n")
     (auto simp: boardName_def ToString_printed ToString_not_printable)

lemma boardDescription_Inr:
  "boardDescription n d = Inr v \<longleftrightarrow>
     printable n \<and> printable d
     \<and> v = JStr (lit ''Project board for deal: '' @ printed n
                 @ lit '' (Zoho Deal ID: '' @ printed d @ lit '')'')"
  by (cases "printable n"; cases "printable d")
     (auto simp: boardDescription_def ToString_printed ToString_not_printable)

lemma createProjectBoard_InrE:
  assumes "createProjectBoard env n d s = (Inr pb, s')"
  obtains b s1 l1 s3 l2 s4 l3 s5 cs where
    "printable n" and "printable d"
    and "createBoard env (JStr (lit ''Project: '' @ printed n))
           (JStr (lit ''Project board for deal: '' @ printed n
                  @ lit '' (Zoho Deal ID: '' @ printed d @ lit '')'')) s = (Inr b, s1)"
    and "createList env (field b ''id'') (JStr (lit ''To Do'')) (JNum 1) s1 = (Inr l1, s3)"
    and "createList env (field b ''id'') (JStr (lit ''In Progress'')) (JNum 2) s3 = (Inr l2, s4)"
    and "createList env (field b ''id'') (JStr (lit ''Done'')) (JNum 3) s4 = (Inr l3, s5)"
    and "createCards env l1 initialCards [] s5 = (Inr cs, s')"
    and "pb = \<lparr>board = b, lists = \<lparr>lists_todo = l1, lists_inProgress = l2, lists_done = l3\<rparr>,
               cards = cs\<rparr>"
proof -
  from assms obtain nm t0 ds t1 b s1 i s2 l1 s3 l2 s4 l3 s5 cs s6 u s7 where
    nm: "lift (boardName n) s = (Inr nm, t0)"
    and ds: "lift (boardDescription n d) t0 = (Inr ds, t1)"
    and b: "createBoard env nm ds t1 = (Inr b, s1)"
    and i: "lift (get b ''id'') s1 = (Inr i, s2)"
    and l1: "createList env i (JStr (lit ''To Do'')) (JNum 1) s2 = (Inr l1, s3)"
    and l2: "createList env i (JStr (lit ''In Progress'')) (JNum 2) s3 = (Inr l2, s4)"
    and l3: "createList env i (JStr (lit ''Done'')) (JNum 3) s4 = (Inr l3, s5)"
    and cs: "createCards env l1 initialCards [] s5 = (Inr cs, s6)"
    and lg: "logs [Inr n] s6 = (Inr u, s7)"
    and pb: "return \<lparr>board = b, lists = \<lparr>lists_todo = l1, lists_inProgress = l2, lists_done = l3\<rparr>,
                     cards = cs\<rparr> s7 = (Inr pb, s')"
    unfolding createProjectBoard_def try_catch_logged_Inr by (elim bind_InrE) blast
  have "printable n" "printable d" "nm = JStr (lit ''Project: '' @ printed n)"
    "ds = JStr (lit ''Project board for deal: '' @ printed n
                 @ lit '' (Zoho Deal ID: '' @ printed d @ lit '')'')" "t0 = s" "t1 = s"
    using nm ds by (auto simp: lift_Inr boardName_Inr boardDescription_Inr)
  moreover have "i = field b ''id''" "s2 = s1"
    using i by (auto simp: lift_Inr field_def)
  moreover have "s7 = s6" "s' = s7"
    "pb = \<lparr>board = b, lists = \<lparr>lists_todo = l1, lists_inProgress = l2, lists_done = l3\<rparr>,
               cards = cs\<rparr>"
    using lg pb by (auto simp: logs_Inr return_Inr)
  ultimately show ?thesis
    using that b l1 l2 l3 cs by simp
qed

lemma createProjectBoard_board:
  assumes "createProjectBoard env n d s = (Inr pb, s')"
  shows "get (board pb) k = Inr (field (board pb) k)"
    and "printable (field (board pb) ''id'')"
    and "printable n" and "printable d"
proof -
  from assms obtain b nm ds s1 where
    b: "createBoard env nm ds s = (Inr b, s1)" and pb: "board pb = b"
    and p: "printable n" "printable d"
    by (elim createProjectBoard_InrE) simp
  from createBoard_Inr [OF b] have "get b ''id'' = Inr (field b ''id'')"
    and i: "printable (field b ''id'')"
    by blast+
  then show "get (board pb) k = Inr (field (board pb) k)"
    using pb by (cases b) (auto simp: field_def)
  show "printable (field (board pb) ''id'')"
    using i pb by simp
  show "printable n" "printable d"
    by (rule p)+
qed

lemma office_post:
  "http_method r = lit ''POST'' \<Longrightarrow> data r = JObj ((lit ''name'', JStr (lit n)) # rest) \<Longrightarrow>
   n \<noteq> ''Project: Cobalt'' \<Longrightarrow> office ds hist r = Inr (made n)"
  by (simp add: office_def field_def made_def)

lemma trello_call_post [simp]:
  "http_method (trello_call t ep (lit ''POST'') (JObj (kv # kvs))) = lit ''POST''"
  "data (trello_call t ep (lit ''POST'') (JObj (kv # kvs))) = JObj (kv # kvs)"
  by (simp_all add: trello_call_def trello_request_def Let_def)

lemma get_made_id [simp]: "get (made n) ''id'' = Inr (JStr (lit n))"
  by (simp add: made_def)

lemma field_made: "field (made n) ''id'' = JStr (lit n)"
  by (simp add: field_def)

lemma createBoard_office:
  "n \<noteq> ''Project: Cobalt'' \<Longrightarrow> printable (trelloBaseUrl (trelloService s)) \<Longrightarrow>
   createBoard (office ds) (JStr (lit n)) desc s =
     (Inr (made n),
      s\<lparr>sent := sent s @ [trello_call (trelloService s) (lit ''/boards'') (lit ''POST'')
                             (boardData (JStr (lit n)) desc)]\<rparr>)"
  by (simp add: createBoard_def trello_makeRequest_unfold axios_def boardData_def office_post
      logs_two bind_def return_def try_catch_def)

lemma createList_office:
  "n \<noteq> ''Project: Cobalt'' \<Longrightarrow> printable (trelloBaseUrl (trelloService s)) \<Longrightarrow> printable i \<Longrightarrow>
   createList (office ds) i (JStr (lit n)) p s =
     (Inr (made n),
      s\<lparr>sent := sent s @ [trello_call (trelloService s) (lit ''/lists'') (lit ''POST'')
                             (listData i (JStr (lit n)) p)]\<rparr>)"
  by (simp add: createList_def trello_makeRequest_unfold axios_def listData_def office_post
      logs_two bind_def return_def try_catch_def)

lemma createCard_office:
  "n \<noteq> ''Project: Cobalt'' \<Longrightarrow> printable (trelloBaseUrl (trelloService s)) \<Longrightarrow> printable i \<Longrightarrow>
   createCard (office ds) i (JStr (lit n)) desc s =
     (Inr (made n),
      s\<lparr>sent := sent s @ [trello_call (trelloService s) (lit ''/cards'') (lit ''POST'')
                             (cardData i (JStr (lit n)) desc)]\<rparr>)"
  by (simp add: createCard_def trello_makeRequest_unfold axios_def cardData_def office_post
      logs_two bind_def return_def try_catch_def)

lemma createProjectBoard_office:
  "n \<noteq> ''Cobalt'' \<Longrightarrow> printable (trelloBaseUrl (trelloService s)) \<Longrightarrow> printable i \<Longrightarrow>
   createProjectBoard (office ds) (JStr (lit n)) i s =
     (Inr (office_board n),
      s\<lparr>sent := sent s @
         project_requests (trelloService s) (JStr (lit n)) i
           (JStr (lit (''Project: '' @ n))) (JStr (lit ''To Do''))\<rparr>)"
  by (simp add: createProjectBoard_def boardName_def boardDescription_def ToString_printed
      createBoard_office createList_office createCard_office initialCards_def logs_one
      bind_def lift_def return_def try_catch_def office_board_def
      project_requests_def boardData_def listData_def cardData_def)


text \<open>
  C4. When createProjectBoard succeeds for the name \<open>n\<close> and the record id
  \<open>d\<close>, it has sent exactly seven requests, in this order: one that creates the
  board named \<open>"Project: " + n\<close> whose description embeds \<open>d\<close>; three that
  create the lists To Do, In Progress and Done on that board at the positions 1, 2
  and 3; three that create the cards Kickoff Meeting Scheduled, Requirements Gathering
  and System Setup in the To Do list. What it returns is made of the seven responses:
  the board, the three lists and the three cards, in the order of creation. The name
  and the id are values that the templates of the board name and of the description
  convert to strings: otherwise createProjectBoard does not succeed.
\<close>

theorem createProjectBoard_shape:
  assumes "createProjectBoard env n d s = (Inr pb, s')"
  shows "s' = s\<lparr>sent := sent s @
              project_requests (trelloService s) n d
                (field (board pb) ''id'') (field (lists_todo (lists pb)) ''id'')\<rparr>
       \<and> replies env (sent s)
            (project_requests (trelloService s) n d
               (field (board pb) ''id'') (field (lists_todo (lists pb)) ''id''))
          = map Inr ([board pb, lists_todo (lists pb), lists_inProgress (lists pb),
                      lists_done (lists pb)] @ cards pb)
       \<and> length (cards pb) = 3
       \<and> printable n \<and> printable d"
proof -
  from assms obtain b s1 l1 s3 l2 s4 l3 s5 cs where
    p: "printable n" "printable d"
    and b: "createBoard env (JStr (lit ''Project: '' @ printed n))
           (JStr (lit ''Project board for deal: '' @ printed n
                  @ lit '' (Zoho Deal ID: '' @ printed d @ lit '')'')) s = (Inr b, s1)"
    and l1: "createList env (field b ''id'') (JStr (lit ''To Do'')) (JNum 1) s1 = (Inr l1, s3)"
    and l2: "createList env (field b ''id'') (JStr (lit ''In Progress'')) (JNum 2) s3 = (Inr l2, s4)"
    and l3: "createList env (field b ''id'') (JStr (lit ''Done'')) (JNum 3) s4 = (Inr l3, s5)"
    and cs: "createCards env l1 initialCards [] s5 = (Inr cs, s')"
    and pb: "pb = \<lparr>board = b, lists = \<lparr>lists_todo = l1, lists_inProgress = l2, lists_done = l3\<rparr>,
               cards = cs\<rparr>"
    by (rule createProjectBoard_InrE)
  note B = createBoard_Inr [OF b]
  note L1 = createList_Inr [OF l1] and L2 = createList_Inr [OF l2] and L3 = createList_Inr [OF l3]
  from cs obtain c1 c2 c3 where C: "cs = [c1, c2, c3]"
    "s' = s5\<lparr>sent := sent s5 @
            map (\<lambda>n. trello_call (trelloService s5) (lit ''/cards'') (lit ''POST'')
                       (cardData (field l1 ''id'') (JStr n) (JStr []))) initialCards\<rparr>"
    "replies env (sent s5)
            (map (\<lambda>n. trello_call (trelloService s5) (lit ''/cards'') (lit ''POST'')
                       (cardData (field l1 ''id'') (JStr n) (JStr []))) initialCards)
          = map Inr cs"
    unfolding initialCards_def using createCards_three by blast
  show ?thesis
    using B L1 L2 L3 C pb p
    by (simp add: project_requests_def boardData_def listData_def cardData_def initialCards_def)
qed

theorem createProjectBoard_shape_witness:
  "createProjectBoard (office []) (JStr (lit ''Acme rollout'')) (JStr (lit ''1001'')) start
     = (Inr (office_board ''Acme rollout''),
        start\<lparr>sent := project_requests demo_trello (JStr (lit ''Acme rollout''))
                         (JStr (lit ''1001'')) (JStr (lit ''Project: Acme rollout''))
                         (JStr (lit ''To Do''))\<rparr>)
   \<and> replies (office []) []
        (project_requests demo_trello (JStr (lit ''Acme rollout'')) (JStr (lit ''1001''))
           (JStr (lit ''Project: Acme rollout'')) (JStr (lit ''To Do'')))
      = map Inr [made ''Project: Acme rollout'', made ''To Do'', made ''In Progress'',
                 made ''Done'', made ''Kickoff Meeting Scheduled'',
                 made ''Requirements Gathering'', made ''System Setup'']"
proof -
  have h: "createProjectBoard (office []) (JStr (lit ''Acme rollout'')) (JStr (lit ''1001'')) start
     = (Inr (office_board ''Acme rollout''),
        start\<lparr>sent := project_requests demo_trello (JStr (lit ''Acme rollout''))
                         (JStr (lit ''1001'')) (JStr (lit ''Project: Acme rollout''))
                         (JStr (lit ''To Do''))\<rparr>)"
    by (simp add: createProjectBoard_office start_def demo_trello_def)
  have f: "field (made n) ''id'' = JStr (lit n)" for n
    by (simp add: field_def)
  show ?thesis
    using createProjectBoard_shape [OF h] h
    by (simp add: office_board_def f) (simp add: start_def)
qed

subsection \<open>updateDealWithBoardId\<close>

lemma update_failed_iff: "update_failed response = Inr False \<longleftrightarrow> reports_success response"
proof (cases "get response ''data''")
  case (Inl e)
  then show ?thesis by (simp add: update_failed_def reports_success_def)
next
  case (Inr rows)
  show ?thesis
  proof (cases "at0 rows")
    case (Inl e)
    then have "\<not> truthy rows" by (cases rows rule: at0.cases) auto
    then show ?thesis
      using Inr Inl by (simp add: update_failed_def reports_success_def)
  next
    case row: (Inr row)
    have falsy_rows: "row = JUndefined" if "\<not> truthy rows"
      using that row by (cases rows rule: at0.cases) auto
    have falsy_row: "get row ''status'' \<noteq> Inr (JStr (lit ''success''))" if "\<not> truthy row"
      using that by (cases row) auto
    obtain st where st: "get row ''status'' = Inr st \<or> row = JUndefined \<or> row = JNull"
      by (cases row) auto
    show ?thesis
      using Inr row falsy_rows falsy_row st
      by (auto simp: update_failed_def reports_success_def)
  qed
qed

lemma write_back_call_unfold:
  "write_back_call env d b s =
     (if printable d
      then zoho_makeRequest env (lit ''/Deals/'' @ printed d) (lit ''PUT'') (update_data d b) s
      else (Inl cannot_convert, s))"
  by (cases "printable d")
     (simp_all add: write_back_call_def ToString_printed ToString_not_printable throw_def)

lemma updateDealWithBoardId_unfold:
  "updateDealWithBoardId env d b s =
     (case write_back_call env d b s of
        (Inl e, s') \<Rightarrow> (Inl e, s')
      | (Inr response, s') \<Rightarrow>
          (case update_failed response of
             Inl e \<Rightarrow> (Inl e, s')
           | Inr failed \<Rightarrow>
               if failed then
                 (Inl (Error (lit ''Failed to update deal '' @ printed d
                              @ lit '' in Zoho. See logs for details.'')), s')
               else if printable b then (Inr response, s')
               else (Inl cannot_convert, s')))"
proof (cases "printable d")
  case False
  then show ?thesis
    by (simp add: updateDealWithBoardId_def write_back_call_unfold ToString_not_printable
        logs_one throw_def)
next
  case True
  then show ?thesis
    by (simp add: updateDealWithBoardId_def write_back_call_unfold ToString_printed
        logs_one logs_two cong: if_cong)
       (simp add: bind_def lift_def throw_def return_def try_catch_def
          split: prod.splits sum.splits)
qed

lemma reports_success_accepted: "reports_success accepted"
  by (simp add: reports_success_def accepted_def)

lemma reports_success_rejected: "\<not> reports_success rejected"
  by (simp add: reports_success_def rejected_def)

lemma write_back_office:
  assumes "zohoService s = demo_zoho"
  shows "write_back_call (office ds) (JStr (lit i)) b s =
         (Inr (if i = ''1001'' then accepted else rejected),
          s\<lparr>sent := sent s @ [put_request demo_zoho i b]\<rparr>)"
  using assms
  by (simp add: write_back_call_unfold zoho_makeRequest_unfold zoho_config_text axios_def
      office_def zoho_call_def zoho_request_def update_data_def
      demo_zoho_def accepted_def rejected_def put_request_def)


subsection \<open>One deal of the loop\<close>

lemma syncLoop_append:
  "syncLoop env (xs @ ys) res = bind (syncLoop env xs res) (\<lambda>res'. syncLoop env ys res')"
proof (induction xs arbitrary: res)
  case Nil
  then show ?case by simp
next
  case (Cons deal xs)
  show ?case
    by (rule ext) (simp add: Cons.IH bind_def split: prod.splits sum.splits)
qed

lemma syncDeal_linked:
  assumes "get deal ''Project_Board_ID_c'' = Inr (JStr b)" and "trim b \<noteq> []"
  shows "syncDeal env deal res =
           (if printable (field deal ''id'') \<and> printable (field deal ''Deal_Name'')
            then return res else throw cannot_convert)"
proof -
  have "b \<noteq> []" using assms(2) by (auto simp: trim_def)
  then have "nonblank ''deal.Project_Board_ID_c'' (JStr b) = Inr True"
    using assms(2) by (simp add: nonblank_def)
  then show ?thesis
    using assms(1) by (simp add: syncDeal_def get_field [OF assms(1)] logs_two)
qed

lemma unlinked_get: "unlinked deal \<Longrightarrow> get deal k = Inr (field deal k)"
  by (cases deal) (auto simp: unlinked_def field_def)

lemma syncDeal_unlinked:
  assumes "unlinked deal" and "printable (field deal ''id'')"
  shows "syncDeal env deal res =
           try_catch (bind (processDeal env deal)
                        (\<lambda>_. return (res\<lparr>created := created res + 1,
                                         details := details res @ [success_detail deal]\<rparr>)))
             (\<lambda>error. return (res\<lparr>errors := errors res + 1,
                                   details := details res @ [error_detail deal (message error)]\<rparr>))"
proof -
  have "nonblank ''deal.Project_Board_ID_c'' (field deal ''Project_Board_ID_c'') = Inr False"
    using assms(1) by (auto simp: unlinked_def field_def nonblank_def split: sum.splits)
  then show ?thesis
    using assms(2)
    by (simp add: syncDeal_def unlinked_get [OF assms(1)] record_success_def record_error_def
        success_detail_def error_detail_def logs_one)
qed

lemma processDeal_unfold:
  assumes "unlinked deal" and "printable (field deal ''id'')"
    and "printable (field deal ''Deal_Name'')"
  shows "processDeal env deal =
     bind (lift (validateDeal deal)) (\<lambda>valid.
       if \<not> valid then throw (Error (lit ''Deal does not meet all criteria''))
       else
         bind (createProjectBoard env (field deal ''Deal_Name'') (field deal ''id'')) (\<lambda>projectBoard.
         bind (lift (get (board projectBoard) ''id'')) (\<lambda>boardId.
         bind (updateDealWithBoardId env (field deal ''id'') boardId) (\<lambda>_.
         bind (logs [Inr (field deal ''id''), get (board projectBoard) ''id'']) (\<lambda>_.
         bind (lift (get (board projectBoard) ''url'')) (\<lambda>boardUrl.
         return
           \<lparr>pd_dealId = field deal ''id'', pd_dealName = field deal ''Deal_Name'',
            pd_boardId = boardId, pd_boardUrl = boardUrl\<rparr>))))))"
  using assms(2,3)
  by (simp add: processDeal_def unlinked_get [OF assms(1)] logs_one logs_two cong: if_cong)



lemma syncDeal_no_write_back:
  assumes "unlinked deal" and "validateDeal deal = Inr True"
    and "createProjectBoard env (field deal ''Deal_Name'') (field deal ''id'') s = (Inr pb, s1)"
    and "updateDealWithBoardId env (field deal ''id'') (field (board pb) ''id'') s1 = (Inl e, s2)"
  shows "syncDeal env deal res s =
           (Inr (res\<lparr>errors := errors res + 1,
                    details := details res @ [error_detail deal (message e)]\<rparr>), s2)"
proof -
  note pb = createProjectBoard_board [OF assms(3)]
  show ?thesis
    using assms(2,3,4) pb(1)
    by (simp add: syncDeal_unlinked [OF assms(1) pb(4)]
        processDeal_unfold [OF assms(1) pb(4) pb(3)]
        try_catch_def bind_Inl bind_Inr return_def)
qed



lemma unlinked_demo:
  "unlinked blank_deal" "unlinked cobalt" "unlinked acme" "unlinked delta" "unlinked opaque_deal"
  by (simp_all add: unlinked_def blank_deal_def cobalt_def acme_def delta_def opaque_deal_def)

lemma field_demo:
  "field cobalt ''Deal_Name'' = JStr (lit ''Cobalt'')" "field cobalt ''id'' = JStr (lit ''1003'')"
  "field acme ''Deal_Name'' = JStr (lit ''Acme rollout'')" "field acme ''id'' = JStr (lit ''1001'')"
  "field delta ''Deal_Name'' = JStr (lit ''Delta'')" "field delta ''id'' = JStr (lit ''1004'')"
  "field blank_deal ''Deal_Name'' = JStr (lit ''  '')" "field blank_deal ''id'' = JStr (lit ''1000'')"
  "field opaque_deal ''Deal_Name'' = JStr (lit ''Opal'')" "field opaque_deal ''id'' = opaque"
  by (simp_all add: field_def blank_deal_def cobalt_def acme_def delta_def opaque_deal_def)

lemma validateDeal_demo:
  "validateDeal blank_deal = Inr False" "validateDeal cobalt = Inr True"
  "validateDeal acme = Inr True" "validateDeal delta = Inr True"
  "validateDeal opaque_deal = Inr True"
  by (simp_all add: validateDeal_def nonblank_def blank_deal_def cobalt_def acme_def delta_def
      opaque_deal_def trim_def lit_def isWhiteSpace_def)

lemma board_id_empty_demo:
  "board_id_empty blank_deal = Inr True" "board_id_empty cobalt = Inr True"
  "board_id_empty acme = Inr True" "board_id_empty opaque_deal = Inr True"
  "board_id_empty opaque_linked = Inr True"
  by (simp_all add: board_id_empty_def blank_deal_def cobalt_def acme_def opaque_deal_def
      opaque_linked_def)

lemma getEligibleDeals_office:
  assumes "filter_raising board_id_empty ds = Inr ds"
  shows "getEligibleDeals (office ds) start =
           (Inr ds, start\<lparr>sent := [search_request demo_zoho]\<rparr>)"
proof -
  have z: "zohoService start = demo_zoho"
    by (simp add: start_def)
  have "office ds (sent start) (search_request demo_zoho) = Inr (JObj [(lit ''data'', JArr ds)])"
    by (simp add: office_def search_request_def zoho_call_def zoho_request_def)
  then have "zoho_makeRequest (office ds) (lit ''/Deals/search?criteria='' @ encoded_criteria)
          (lit ''GET'') JNull start =
        (Inr (JObj [(lit ''data'', JArr ds)]), start\<lparr>sent := [search_request demo_zoho]\<rparr>)"
    using zoho_makeRequest_answered [OF z, of "office ds"]
    by (simp add: search_request_def start_def)
  then show ?thesis
    using assms by (simp add: getEligibleDeals_unfold)
qed

subsection \<open>The loop of syncDealsToTrello\<close>

lemma syncDeal_opaque_linked:
  "syncDeal env opaque_linked res s = (Inl cannot_convert, s)"
  by (simp add: syncDeal_def opaque_linked_def nonblank_def trim_b77 logs_def)
     (simp add: throw_def)

text \<open>
  C1, as stated, fails. The CRM returns a deal that carries the board id b-77 and whose
  id is an object with a key \<open>toString\<close>, and after it a deal that meets every
  criterion. The first deal is not skipped without an error: the log line of the skip
  interpolates its id, outside the \<open>try\<close> of the loop body, so the whole run
  raises a TypeError and the second deal is never looked at.
\<close>

theorem linked_deal_not_skipped_counterexample:
  "getEligibleDeals (office [opaque_linked, acme]) start
     = (Inr [opaque_linked, acme], start\<lparr>sent := [search_request demo_zoho]\<rparr>)
   \<and> get opaque_linked ''Project_Board_ID_c'' = Inr (JStr (lit ''b-77''))
   \<and> trim (lit ''b-77'') \<noteq> []
   \<and> syncDealsToTrello (office [opaque_linked, acme]) start
     = (Inl (TypeError (lit ''Cannot convert object to primitive value'')),
        start\<lparr>sent := [search_request demo_zoho]\<rparr>)"
proof -
  have fetch: "getEligibleDeals (office [opaque_linked, acme]) start
     = (Inr [opaque_linked, acme], start\<lparr>sent := [search_request demo_zoho]\<rparr>)"
    by (rule getEligibleDeals_office) (simp add: board_id_empty_demo)
  have "syncDealsToTrello (office [opaque_linked, acme]) start
     = (Inl cannot_convert, start\<lparr>sent := [search_request demo_zoho]\<rparr>)"
    using fetch by (simp add: syncDealsToTrello_def bind_Inr bind_Inl syncDeal_opaque_linked)
  then show ?thesis
    using fetch by (simp add: cannot_convert_def opaque_linked_def trim_b77)
qed

text \<open>
  C1, amended. Take a fetched deal whose \<open>Project_Board_ID_c\<close> is a string that is
  not empty after trimming. If its id and its name convert to strings for the log line
  of the skip, as strings and missing values do, the deal is skipped: the body of the
  loop returns the counters and the details as they were and leaves the state of the
  process as it was, so no request at all is sent for it, neither by createProjectBoard
  nor by updateDealWithBoardId; the whole loop, and with it the synchronisation over
  any fetched list that holds the deal, ends in the state and with the counters and
  details of the run over the list without it, and only \<open>processed\<close>, the length of
  the fetched list, counts the deal. If its id or its name does not convert, the body
  of the loop raises a TypeError, again without sending a request.
\<close>

theorem linked_deal_is_skipped:
  assumes "get deal ''Project_Board_ID_c'' = Inr (JStr b)" and "trim b \<noteq> []"
  shows "(printable (field deal ''id'') \<and> printable (field deal ''Deal_Name'') \<longrightarrow>
            syncDeal env deal res s = (Inr res, s)
          \<and> syncLoop env (before @ deal # after) res s = syncLoop env (before @ after) res s
          \<and> (getEligibleDeals env t = (Inr (before @ deal # after), s) \<longrightarrow>
               syncDealsToTrello env t =
                 syncLoop env (before @ after)
                   \<lparr>processed = Suc (length (before @ after)), created = 0, errors = 0,
                    details = []\<rparr> s))
       \<and> (\<not> (printable (field deal ''id'') \<and> printable (field deal ''Deal_Name'')) \<longrightarrow>
            syncDeal env deal res s
              = (Inl (TypeError (lit ''Cannot convert object to primitive value'')), s))"
proof -
  note body = syncDeal_linked [OF assms]
  have raises: "syncDeal env deal res s = (Inl cannot_convert, s)"
    if "\<not> (printable (field deal ''id'') \<and> printable (field deal ''Deal_Name''))"
    using that by (auto simp: body throw_def)
  have skipped: "syncDeal env deal res s = (Inr res, s)
          \<and> syncLoop env (before @ deal # after) res s = syncLoop env (before @ after) res s
          \<and> (getEligibleDeals env t = (Inr (before @ deal # after), s) \<longrightarrow>
               syncDealsToTrello env t =
                 syncLoop env (before @ after)
                   \<lparr>processed = Suc (length (before @ after)), created = 0, errors = 0,
                    details = []\<rparr> s)"
    if p: "printable (field deal ''id'') \<and> printable (field deal ''Deal_Name'')"
  proof -
    have skip: "syncDeal env deal r = return r" for r
      using p by (simp add: syncDeal_linked [OF assms])
    have one: "syncDeal env deal res s = (Inr res, s)"
      by (simp add: skip return_def)
    have loop: "syncLoop env (before @ deal # after) r = syncLoop env (before @ after) r" for r
      by (simp add: syncLoop_append [of env before] skip)
    have top: "syncDealsToTrello env t =
                syncLoop env (before @ after)
                  \<lparr>processed = Suc (length (before @ after)), created = 0, errors = 0,
                   details = []\<rparr> s"
      if "getEligibleDeals env t = (Inr (before @ deal # after), s)"
      using that by (simp add: syncDealsToTrello_def bind_Inr loop [symmetric])
    show ?thesis
      using one loop top by simp
  qed
  show ?thesis
    using raises skipped unfolding cannot_convert_def by blast
qed

theorem linked_deal_is_skipped_witness:
  "get linked_deal ''Project_Board_ID_c'' = Inr (JStr (lit ''b-77''))
   \<and> trim (lit ''b-77'') \<noteq> []
   \<and> printable (field linked_deal ''id'') \<and> printable (field linked_deal ''Deal_Name'')
   \<and> getEligibleDeals crm
         (start\<lparr>sent := [put_request demo_zoho ''1002'' (JStr (lit ''b-77''))]\<rparr>)
       = (Inr [linked_deal],
          start\<lparr>sent := [put_request demo_zoho ''1002'' (JStr (lit ''b-77'')),
                          search_request demo_zoho]\<rparr>)
   \<and> syncDealsToTrello crm
         (start\<lparr>sent := [put_request demo_zoho ''1002'' (JStr (lit ''b-77''))]\<rparr>)
       = (Inr \<lparr>processed = 1, created = 0, errors = 0, details = []\<rparr>,
          start\<lparr>sent := [put_request demo_zoho ''1002'' (JStr (lit ''b-77'')),
                          search_request demo_zoho]\<rparr>)"
proof -
  have h1: "get linked_deal ''Project_Board_ID_c'' = Inr (JStr (lit ''b-77''))"
    by (simp add: linked_deal_def)
  have h2: "trim (lit ''b-77'') \<noteq> []"
    by (simp add: trim_b77)
  have p: "printable (field linked_deal ''id'')" "printable (field linked_deal ''Deal_Name'')"
    by (simp_all add: field_def linked_deal_def)
  show ?thesis
    using linked_deal_is_skipped [OF h1 h2, where env = crm and before = "[]" and after = "[]"
        and s = "start\<lparr>sent := [put_request demo_zoho ''1002'' (JStr (lit ''b-77'')),
                                 search_request demo_zoho]\<rparr>"
        and t = "start\<lparr>sent := [put_request demo_zoho ''1002'' (JStr (lit ''b-77''))]\<rparr>"]
      h1 h2 p getEligibleDeals_crm
    by (simp add: return_def)
qed




text \<open>
  C5. When the response of the CRM to the update carries no explicit success status for
  the record (a missing or an empty \<open>data\<close> array included),
  updateDealWithBoardId raises an error and does not return the response. The loop of
  syncDealsToTrello then counts an error for the deal and appends a detail with the
  status error, not a success, although createProjectBoard had created the board.
\<close>

theorem write_back_needs_explicit_success:
  assumes put: "write_back_call env d b s = (Inr response, s')"
    and lacks: "get response ''data'' = Inr JUndefined \<or> get response ''data'' = Inr (JArr [])
                \<or> \<not> reports_success response"
  shows "(\<exists>e. updateDealWithBoardId env d b s = (Inl e, s'))
       \<and> (unlinked deal \<and> validateDeal deal = Inr True \<and> field deal ''id'' = d
           \<and> createProjectBoard env (field deal ''Deal_Name'') d s\<^sub>0 = (Inr pb, s)
           \<and> field (board pb) ''id'' = b
          \<longrightarrow> (\<exists>e. syncDeal env deal res s\<^sub>0 =
                  (Inr (res\<lparr>errors := errors res + 1,
                           details := details res @
                             [\<lparr>dealId = d, dealName = field deal ''Deal_Name'',
                               status = lit ''error'', detail_message = message e\<rparr>]\<rparr>), s')))"
proof -
  have "\<not> reports_success response"
    using lacks by (auto simp: reports_success_def)
  then have "update_failed response \<noteq> Inr False"
    by (simp add: update_failed_iff)
  then have "\<exists>e. updateDealWithBoardId env d b s = (Inl e, s')"
    using put by (cases "update_failed response") (auto simp: updateDealWithBoardId_unfold)
  then obtain e where e: "updateDealWithBoardId env d b s = (Inl e, s')" ..
  have "syncDeal env deal res s\<^sub>0 =
          (Inr (res\<lparr>errors := errors res + 1,
                   details := details res @
                     [\<lparr>dealId = d, dealName = field deal ''Deal_Name'',
                       status = lit ''error'', detail_message = message e\<rparr>]\<rparr>), s')"
    if "unlinked deal" and "validateDeal deal = Inr True" and "field deal ''id'' = d"
      and "createProjectBoard env (field deal ''Deal_Name'') d s\<^sub>0 = (Inr pb, s)"
      and "field (board pb) ''id'' = b"
    using syncDeal_no_write_back [of deal env s\<^sub>0 pb s e s' res] that e
    by (simp add: error_detail_def)
  then show ?thesis
    using e by blast
qed

theorem write_back_needs_explicit_success_witness:
  "write_back_call (office [delta]) (JStr (lit ''1004'')) (JStr (lit ''Project: Delta''))
     (start\<lparr>sent := project_requests demo_trello (JStr (lit ''Delta'')) (JStr (lit ''1004''))
                       (JStr (lit ''Project: Delta'')) (JStr (lit ''To Do''))\<rparr>)
   = (Inr rejected,
      start\<lparr>sent := project_requests demo_trello (JStr (lit ''Delta'')) (JStr (lit ''1004''))
                       (JStr (lit ''Project: Delta'')) (JStr (lit ''To Do''))
                     @ [put_request demo_zoho ''1004'' (JStr (lit ''Project: Delta''))]\<rparr>)
   \<and> \<not> reports_success rejected
   \<and> (\<exists>e. syncDeal (office [delta]) delta \<lparr>processed = 1, created = 0, errors = 0, details = []\<rparr> start =
         (Inr \<lparr>processed = 1, created = 0, errors = 1,
               details = [\<lparr>dealId = JStr (lit ''1004''), dealName = JStr (lit ''Delta''),
                           status = lit ''error'', detail_message = message e\<rparr>]\<rparr>,
          start\<lparr>sent := project_requests demo_trello (JStr (lit ''Delta'')) (JStr (lit ''1004''))
                       (JStr (lit ''Project: Delta'')) (JStr (lit ''To Do''))
                     @ [put_request demo_zoho ''1004'' (JStr (lit ''Project: Delta''))]\<rparr>))"
proof -
  let ?env = "office [delta]"
  let ?reqs = "project_requests demo_trello (JStr (lit ''Delta'')) (JStr (lit ''1004''))
                       (JStr (lit ''Project: Delta'')) (JStr (lit ''To Do''))"
  let ?s = "start\<lparr>sent := ?reqs\<rparr>"
  let ?s' = "start\<lparr>sent := ?reqs @ [put_request demo_zoho ''1004'' (JStr (lit ''Project: Delta''))]\<rparr>"
  have z: "zohoService ?s = demo_zoho"
    by (simp add: start_def)
  have put: "write_back_call ?env (JStr (lit ''1004'')) (JStr (lit ''Project: Delta'')) ?s
               = (Inr rejected, ?s')"
    using write_back_office [OF z, of "[delta]" "''1004''" "JStr (lit ''Project: Delta'')"] by simp
  have lacks: "get rejected ''data'' = Inr JUndefined \<or> get rejected ''data'' = Inr (JArr [])
                \<or> \<not> reports_success rejected"
    by (simp add: reports_success_rejected)
  have board: "createProjectBoard ?env (field delta ''Deal_Name'') (JStr (lit ''1004'')) start
                 = (Inr (office_board ''Delta''), ?s)"
    using createProjectBoard_office [of "''Delta''" start "JStr (lit ''1004'')" "[delta]"]
    by (simp add: field_demo) (simp add: start_def demo_trello_def)
  have "\<exists>e. syncDeal ?env delta \<lparr>processed = 1, created = 0, errors = 0, details = []\<rparr> start =
         (Inr (\<lparr>processed = 1, created = 0, errors = 0, details = []\<rparr>
               \<lparr>errors := errors \<lparr>processed = 1, created = 0, errors = 0, details = []\<rparr> + 1,
                 details := details \<lparr>processed = 1, created = 0, errors = 0, details = []\<rparr> @
                   [\<lparr>dealId = JStr (lit ''1004''), dealName = field delta ''Deal_Name'',
                     status = lit ''error'', detail_message = message e\<rparr>]\<rparr>), ?s')"
    using write_back_needs_explicit_success [OF put lacks, where deal = delta and s\<^sub>0 = start
        and pb = "office_board ''Delta''"
        and res = "\<lparr>processed = 1, created = 0, errors = 0, details = []\<rparr>"]
      unlinked_demo(4) validateDeal_demo(4) board
    by (simp add: field_demo office_board_def field_made)
  then show ?thesis
    using put reports_success_rejected by (simp add: field_demo)
qed

subsection \<open>getEligibleDeals after a write-back\<close>

text \<open>
  C3, evaluated where the code departs from it. updateDealWithBoardId writes the board
  id b-77 to the field \<open>Project_Board_ID_c\<close> of deal 1002 and the CRM accepts it;
  the next getEligibleDeals returns that deal, with the field set, among the eligible
  ones, because its filter reads the field \<open>Project_Board_ID__c\<close>.
\<close>

theorem linked_deal_is_fetched_again:
  "updateDealWithBoardId crm (JStr (lit ''1002'')) (JStr (lit ''b-77'')) start
     = (Inr accepted, start\<lparr>sent := [put_request demo_zoho ''1002'' (JStr (lit ''b-77''))]\<rparr>)
   \<and> getEligibleDeals crm
         (start\<lparr>sent := [put_request demo_zoho ''1002'' (JStr (lit ''b-77''))]\<rparr>)
     = (Inr [linked_deal],
        start\<lparr>sent := [put_request demo_zoho ''1002'' (JStr (lit ''b-77'')),
                        search_request demo_zoho]\<rparr>)
   \<and> get linked_deal ''Project_Board_ID_c'' = Inr (JStr (lit ''b-77''))"
proof -
  have ok: "update_failed accepted = Inr False"
    by (simp add: update_failed_iff reports_success_accepted)
  have call: "write_back_call crm (JStr (lit ''1002'')) (JStr (lit ''b-77'')) start
     = (Inr accepted, start\<lparr>sent := [put_request demo_zoho ''1002'' (JStr (lit ''b-77''))]\<rparr>)"
    by (simp add: write_back_call_unfold zoho_makeRequest_unfold zoho_config_text axios_def
        crm_def zoho_call_def zoho_request_def put_request_def update_data_def start_def
        demo_zoho_def)
  have put: "updateDealWithBoardId crm (JStr (lit ''1002'')) (JStr (lit ''b-77'')) start
     = (Inr accepted, start\<lparr>sent := [put_request demo_zoho ''1002'' (JStr (lit ''b-77''))]\<rparr>)"
    by (simp add: updateDealWithBoardId_unfold call ok)
  note fetch = getEligibleDeals_crm
  show ?thesis
    using put fetch by (simp add: linked_deal_def)
qed

end
